theory Spec2Isabelle
  imports Complex_Main "HOL-Library.List_Lexorder" "HOL-Library.Char_ord" "HOL-Library.Option_ord"
begin

text \<open>
  A shallow embedding of the task-management backend: the task and user documents, the
  queries the handlers make on the store, and the handlers of controllers/tasks.ts,
  controllers/users.ts and controllers/auth.ts with the middleware and the validation
  they run behind. A handler that reads returns an error or a response; a handler that
  writes returns the pair of its result and the store, so that what a failing call
  leaves behind is part of the model. The JavaScript run time and the libraries the
  code calls are a parameter of every handler.
\<close>

section \<open>Shared types (server/src/types/index.ts)\<close>

datatype UserRole = ADMIN | MEMBER

datatype TaskStatus = TODO | IN_PROGRESS | DONE

datatype TaskPriority = LOW | MEDIUM | HIGH | URGENT

datatype ActivityAction = CREATE | UPDATE | DELETE

fun UserRole_str :: "UserRole \<Rightarrow> string" where
  "UserRole_str ADMIN = ''admin''"
| "UserRole_str MEMBER = ''member''"

fun TaskStatus_str :: "TaskStatus \<Rightarrow> string" where
  "TaskStatus_str TODO = ''todo''"
| "TaskStatus_str IN_PROGRESS = ''in-progress''"
| "TaskStatus_str DONE = ''done''"

fun TaskPriority_str :: "TaskPriority \<Rightarrow> string" where
  "TaskPriority_str LOW = ''low''"
| "TaskPriority_str MEDIUM = ''medium''"
| "TaskPriority_str HIGH = ''high''"
| "TaskPriority_str URGENT = ''urgent''"

text \<open>
  Everything a handler can throw, as the central error handler
  (middleware/errorHandler.ts) tells the cases apart: an \<open>AppError\<close> carries its own
  status code; a Mongoose \<open>ValidationError\<close>, a duplicate key (code 11000, with the
  field) and a \<open>CastError\<close> are answered with 400, any other error with 500.
\<close>

datatype error = AppError string nat | ValidationError string | DuplicateKey string
  | CastError | OtherError string

fun statusCode :: "error \<Rightarrow> nat" where
  "statusCode (AppError m c) = c"
| "statusCode (ValidationError m) = 400"
| "statusCode (DuplicateKey f) = 400"
| "statusCode CastError = 400"
| "statusCode (OtherError m) = 500"

text \<open>JSON values, as \<open>res.json\<close> sends them and as the activity log stores its \<open>changes\<close>.\<close>

datatype json = JUndefined | JNull | JBool bool | JNum int | JString string
  | JArray "json list" | JObject "(string \<times> json) list"

section \<open>JavaScript strings\<close>

text \<open>
  Strings are lists of 8-bit characters. \<open>toLowerCase\<close> maps the letters A to Z and
  \<open>trim\<close> removes the ASCII white space (tab, line feed, vertical tab, form feed,
  carriage return, space) from both ends.
\<close>

definition toLowerCase_char :: "char \<Rightarrow> char" where
  "toLowerCase_char c =
     (if 65 \<le> (of_char c :: nat) \<and> (of_char c :: nat) \<le> 90
      then char_of ((of_char c :: nat) + 32) else c)"

definition toLowerCase :: "string \<Rightarrow> string" where
  "toLowerCase s = map toLowerCase_char s"

definition isWhiteSpace :: "char \<Rightarrow> bool" where
  "isWhiteSpace c = ((of_char c :: nat) \<in> {9, 10, 11, 12, 13, 32})"

definition trim :: "string \<Rightarrow> string" where
  "trim s = rev (dropWhile isWhiteSpace (rev (dropWhile isWhiteSpace s)))"

text \<open>\<open>Array.prototype.indexOf\<close>: the first index holding the value, or -1.\<close>

primrec indexOf :: "'a list \<Rightarrow> 'a \<Rightarrow> int" where
  "indexOf [] x = -1"
| "indexOf (y # ys) x =
     (if y = x then 0 else (let r = indexOf ys x in if r < 0 then -1 else r + 1))"

text \<open>
  \<open>Math.ceil(a / b)\<close> on integers of the safe range, where the floating-point quotient
  rounds up to the exact integer ceiling.
\<close>

definition Math_ceil_div :: "int \<Rightarrow> int \<Rightarrow> int" where
  "Math_ceil_div a b = - ((- a) div b)"

text \<open>A number in a template string: its decimal digits.\<close>

fun showNat :: "nat \<Rightarrow> string" where
  "showNat n = (if n < 10 then [char_of (48 + n)] else showNat (n div 10) @ [char_of (48 + n mod 10)])"

declare showNat.simps [simp del]

section \<open>The run-time environment\<close>

text \<open>
  What the handlers take from the JavaScript run time and from libraries outside the
  repository: the clock (\<open>new Date()\<close>, milliseconds since the epoch), the printing and
  parsing of dates, the regular-expression match of the store (\<open>$regex\<close> with option
  \<open>i\<close>: pattern, then subject), the test of the e-mail pattern of the user schema,
  \<open>mongoose.Types.ObjectId.isValid\<close>, bcrypt, and the signing and verifying of tokens.
  The handlers are parametric in it.
\<close>

datatype jwt_result = JwtPayload string | TokenExpiredError | JsonWebTokenError

record runtime =
  now :: int
  toISOString :: "int \<Rightarrow> string"
  parseDate :: "string \<Rightarrow> int option"
  regexMatchI :: "string \<Rightarrow> string \<Rightarrow> bool"
  emailPattern_test :: "string \<Rightarrow> bool"
  ObjectId_isValid :: "string \<Rightarrow> bool"
  bcrypt_hash :: "string \<Rightarrow> string"
  bcrypt_compare :: "string \<Rightarrow> string \<Rightarrow> bool"
  jwt_sign :: "string \<Rightarrow> string"
  jwt_verify :: "string \<Rightarrow> jwt_result"

section \<open>Documents (models/User.ts, models/Task.ts, models/ActivityLog.ts)\<close>

text \<open>
  Object ids are their 24-digit hexadecimal text. A user document holds its password
  hash only when the field was selected: the schema declares \<open>select: false\<close>.
\<close>

record user =
  u_id :: string
  email :: string
  password :: "string option"
  role :: UserRole
  firstName :: string
  lastName :: string
  u_createdAt :: int
  u_updatedAt :: int

text \<open>A stored date field is missing, null or a date.\<close>

datatype date_field = Absent | Null | Date int

record task =
  t_id :: string
  title :: string
  description :: "string option"
  status :: TaskStatus
  priority :: TaskPriority
  dueDate :: date_field
  tags :: "string list"
  assignee :: string
  createdBy :: string
  createdAt :: int
  updatedAt :: int

record activity_log =
  taskId :: string
  userId :: string
  action :: ActivityAction
  changes :: json
  timestamp :: int

record db =
  users :: "user list"
  tasks :: "task list"
  logs :: "activity_log list"

text \<open>The virtual \<open>isOverdue\<close> of the task schema.\<close>

definition isOverdue :: "runtime \<Rightarrow> task \<Rightarrow> bool" where
  "isOverdue rt t =
     (case dueDate t of
        Date d \<Rightarrow> d < now rt \<and> status t \<noteq> DONE
      | _ \<Rightarrow> False)"

text \<open>
  The \<open>pre("save")\<close> hook of the task schema: every tag is lower-cased, then trimmed;
  a tag is kept when it is not empty and stands at the first index of its value.
\<close>

definition normalizeTags :: "string list \<Rightarrow> string list" where
  "normalizeTags ts =
     (let arr = map (\<lambda>tag. trim (toLowerCase tag)) ts
      in map fst (filter (\<lambda>(tag, index). tag \<noteq> [] \<and> indexOf arr tag = int index)
                    (zip arr [0 ..< length arr])))"

section \<open>Store queries\<close>

text \<open>
  The routes validate every id (\<open>isMongoId\<close>: 24 hexadecimal digits of either case)
  before a handler runs; the lookups below compare object ids as text.
\<close>

definition isHexDigit :: "char \<Rightarrow> bool" where
  "isHexDigit c =
     (let n = (of_char c :: nat)
      in (48 \<le> n \<and> n \<le> 57) \<or> (97 \<le> n \<and> n \<le> 102) \<or> (65 \<le> n \<and> n \<le> 70))"

definition isMongoId :: "string \<Rightarrow> bool" where
  "isMongoId s = (length s = 24 \<and> list_all isHexDigit s)"

text \<open>
  A string of a request body that names a document is cast to an object id before it
  is looked up or written: 24 hexadecimal digits denote the id that prints as their
  lower-case form, whatever the case they were sent in; a string of another shape, which
  the routes do not let through, is taken not to cast.
\<close>

definition ObjectId_cast :: "string \<Rightarrow> string option" where
  "ObjectId_cast s = (if isMongoId s then Some (toLowerCase s) else None)"

definition User_findById_stored :: "db \<Rightarrow> string \<Rightarrow> user option" where
  "User_findById_stored d i = find (\<lambda>u. u_id u = i) (users d)"

text \<open>A query result leaves the password out unless it is selected with \<open>+password\<close>.\<close>

definition select_default :: "user \<Rightarrow> user" where
  "select_default u = u\<lparr>password := None\<rparr>"

definition User_findById :: "db \<Rightarrow> string \<Rightarrow> user option" where
  "User_findById d i = map_option select_default (User_findById_stored d i)"

definition Task_findById :: "db \<Rightarrow> string \<Rightarrow> task option" where
  "Task_findById d i = find (\<lambda>t. t_id t = i) (tasks d)"

text \<open>\<open>populate(path, "firstName lastName email")\<close>: the referenced user, those fields only.\<close>

record user_ref =
  ref_id :: string
  ref_firstName :: string
  ref_lastName :: string
  ref_email :: string

definition populate_user :: "db \<Rightarrow> string \<Rightarrow> user_ref option" where
  "populate_user d i =
     map_option (\<lambda>u. \<lparr>ref_id = u_id u, ref_firstName = firstName u,
                       ref_lastName = lastName u, ref_email = email u\<rparr>)
       (User_findById_stored d i)"

record populated_task =
  doc :: task
  assignee_doc :: "user_ref option"
  createdBy_doc :: "user_ref option"

definition populate :: "db \<Rightarrow> task \<Rightarrow> populated_task" where
  "populate d t = \<lparr>doc = t, assignee_doc = populate_user d (assignee t),
                   createdBy_doc = populate_user d (createdBy t)\<rparr>"

section \<open>Listing tasks (controllers/tasks.ts, getTasks)\<close>

datatype sort_field = SortTitle | SortStatus | SortPriority | SortDueDate
  | SortCreatedAt | SortUpdatedAt

datatype sort_order = Asc | Desc

text \<open>
  The query as the validation of the route leaves it: status, priority and sort field
  from their enumerations, page and limit integers, the bounds of the due date parsed
  dates. The \<open>tags\<close> query parameter is one string or an array of strings.
\<close>

datatype tags_param = OneTag string | ManyTags "string list"

record TaskQuery =
  q_search :: "string option"
  q_status :: "TaskStatus option"
  q_priority :: "TaskPriority option"
  q_assignee :: "string option"
  q_tags :: "tags_param option"
  q_dueDateFrom :: "int option"
  q_dueDateTo :: "int option"
  q_page :: "int option"
  q_limit :: "int option"
  q_sortBy :: "sort_field option"
  q_sortOrder :: "sort_order option"

text \<open>The filter object handed to \<open>Task.find\<close>; a field that was never set is \<open>None\<close>.\<close>

record task_filter =
  f_assignee :: "string option"
  f_or_regex :: "string option"
  f_status :: "TaskStatus option"
  f_priority :: "TaskPriority option"
  f_tags_in :: "string list option"
  f_dueDate :: "(int option \<times> int option) option"
  f_dueDate_lt :: "int option"
  f_status_ne :: "TaskStatus option"

definition empty_filter :: task_filter where
  "empty_filter = \<lparr>f_assignee = None, f_or_regex = None, f_status = None,
     f_priority = None, f_tags_in = None, f_dueDate = None, f_dueDate_lt = None,
     f_status_ne = None\<rparr>"

text \<open>Truthiness of an optional string: present and not empty.\<close>

fun truthy :: "string option \<Rightarrow> bool" where
  "truthy None = False"
| "truthy (Some s) = (s \<noteq> [])"

text \<open>
  The filter of \<open>getTasks\<close>, field by field as the handler sets them: the assignee
  (the caller's id for a member, else the requested one when it is truthy), the search,
  the status, the priority, the tags (a string or an array, when not empty) and the
  range of due dates (when either bound is given).
\<close>

definition taskFilter :: "user \<Rightarrow> TaskQuery \<Rightarrow> task_filter" where
  "taskFilter u q =
     \<lparr>f_assignee = (if role u = MEMBER then Some (u_id u)
                     else if truthy (q_assignee q) then q_assignee q else None),
      f_or_regex = (if truthy (q_search q) then q_search q else None),
      f_status = q_status q,
      f_priority = q_priority q,
      f_tags_in = (case q_tags q of
                     None \<Rightarrow> None
                   | Some (OneTag s) \<Rightarrow> (if s \<noteq> [] then Some [s] else None)
                   | Some (ManyTags ss) \<Rightarrow> (if ss \<noteq> [] then Some ss else None)),
      f_dueDate = (if q_dueDateFrom q \<noteq> None \<or> q_dueDateTo q \<noteq> None
                   then Some (q_dueDateFrom q, q_dueDateTo q) else None),
      f_dueDate_lt = None,
      f_status_ne = None\<rparr>"

text \<open>
  When a document matches a filter: equality on \<open>assignee\<close>, \<open>status\<close> and
  \<open>priority\<close>, the regular expression on the title or the description, \<open>$in\<close> on the
  tags (some tag of the task is among the requested ones), \<open>$gte\<close>, \<open>$lte\<close> and
  \<open>$lt\<close> on the due date (a comparison with a date matches dates only), \<open>$ne\<close> on the
  status.
\<close>

definition matchesFilter :: "runtime \<Rightarrow> task_filter \<Rightarrow> task \<Rightarrow> bool" where
  "matchesFilter rt f t =
     ((case f_assignee f of None \<Rightarrow> True | Some a \<Rightarrow> assignee t = a) \<and>
      (case f_or_regex f of None \<Rightarrow> True
       | Some s \<Rightarrow> regexMatchI rt s (title t) \<or>
           (case description t of None \<Rightarrow> False | Some de \<Rightarrow> regexMatchI rt s de)) \<and>
      (case f_status f of None \<Rightarrow> True | Some s \<Rightarrow> status t = s) \<and>
      (case f_priority f of None \<Rightarrow> True | Some p \<Rightarrow> priority t = p) \<and>
      (case f_tags_in f of None \<Rightarrow> True | Some ss \<Rightarrow> list_ex (\<lambda>tag. tag \<in> set ss) (tags t)) \<and>
      (case f_dueDate f of None \<Rightarrow> True
       | Some (lo, hi) \<Rightarrow>
           (case dueDate t of
              Date d \<Rightarrow> (case lo of None \<Rightarrow> True | Some a \<Rightarrow> a \<le> d) \<and>
                        (case hi of None \<Rightarrow> True | Some b \<Rightarrow> d \<le> b)
            | _ \<Rightarrow> False)) \<and>
      (case f_dueDate_lt f of None \<Rightarrow> True
       | Some b \<Rightarrow> (case dueDate t of Date d \<Rightarrow> d < b | _ \<Rightarrow> False)) \<and>
      (case f_status_ne f of None \<Rightarrow> True | Some s \<Rightarrow> status t \<noteq> s))"

definition Task_find :: "runtime \<Rightarrow> task_filter \<Rightarrow> db \<Rightarrow> task list" where
  "Task_find rt f d = filter (matchesFilter rt f) (tasks d)"

definition Task_countDocuments :: "runtime \<Rightarrow> task_filter \<Rightarrow> db \<Rightarrow> int" where
  "Task_countDocuments rt f d = int (length (filter (matchesFilter rt f) (tasks d)))"

text \<open>
  Sorting by one field: strings in the order of their characters, a missing or null due
  date before every date; descending is the ascending order reversed.
\<close>

fun dueDate_key :: "date_field \<Rightarrow> int option" where
  "dueDate_key (Date d) = Some d"
| "dueDate_key Absent = None"
| "dueDate_key Null = None"

fun sort_asc :: "sort_field \<Rightarrow> task list \<Rightarrow> task list" where
  "sort_asc SortTitle ts = sort_key title ts"
| "sort_asc SortStatus ts = sort_key (\<lambda>t. TaskStatus_str (status t)) ts"
| "sort_asc SortPriority ts = sort_key (\<lambda>t. TaskPriority_str (priority t)) ts"
| "sort_asc SortDueDate ts = sort_key (\<lambda>t. dueDate_key (dueDate t)) ts"
| "sort_asc SortCreatedAt ts = sort_key createdAt ts"
| "sort_asc SortUpdatedAt ts = sort_key updatedAt ts"

definition sortTasks :: "sort_field \<Rightarrow> sort_order \<Rightarrow> task list \<Rightarrow> task list" where
  "sortTasks field ord ts =
     (if ord = Asc then sort_asc field ts else rev (sort_asc field ts))"

record pagination =
  currentPage :: int
  totalPages :: int
  totalItems :: int
  itemsPerPage :: int
  hasNextPage :: bool
  hasPrevPage :: bool

record tasks_response =
  r_tasks :: "populated_task list"
  r_pagination :: pagination

text \<open>
  The page and the page size: \<open>Math.max(1, parseInt(page))\<close> with default 1, and
  \<open>Math.min(100, Math.max(1, parseInt(limit)))\<close> with default 10.
\<close>

definition pageNumber :: "TaskQuery \<Rightarrow> int" where
  "pageNumber q = max 1 (case q_page q of None \<Rightarrow> 1 | Some p \<Rightarrow> p)"

definition limitNumber :: "TaskQuery \<Rightarrow> int" where
  "limitNumber q = min 100 (max 1 (case q_limit q of None \<Rightarrow> 10 | Some l \<Rightarrow> l))"

definition sortBy :: "TaskQuery \<Rightarrow> sort_field" where
  "sortBy q = (case q_sortBy q of None \<Rightarrow> SortCreatedAt | Some s \<Rightarrow> s)"

definition sortOrder :: "TaskQuery \<Rightarrow> sort_order" where
  "sortOrder q = (case q_sortOrder q of None \<Rightarrow> Desc | Some s \<Rightarrow> s)"

definition getTasks :: "runtime \<Rightarrow> db \<Rightarrow> user option \<Rightarrow> TaskQuery \<Rightarrow> error + tasks_response" where
  "getTasks rt d req_user q =
     (case req_user of
        None \<Rightarrow> Inl (AppError ''Authentication required'' 401)
      | Some u \<Rightarrow>
          (let flt = taskFilter u q;
               skip = (pageNumber q - 1) * limitNumber q;
               found = map (populate d)
                         (take (nat (limitNumber q))
                            (drop (nat skip)
                               (sortTasks (sortBy q) (sortOrder q) (Task_find rt flt d))));
               totalTasks = Task_countDocuments rt flt d;
               totalPages = Math_ceil_div totalTasks (limitNumber q)
           in Inr \<lparr>r_tasks = found,
                    r_pagination = \<lparr>currentPage = pageNumber q, totalPages = totalPages,
                      totalItems = totalTasks, itemsPerPage = limitNumber q,
                      hasNextPage = (pageNumber q < totalPages),
                      hasPrevPage = (pageNumber q > 1)\<rparr>\<rparr>))"

section \<open>Overdue tasks (controllers/tasks.ts, getOverdueTasks)\<close>

definition overdueFilter :: "runtime \<Rightarrow> user \<Rightarrow> task_filter" where
  "overdueFilter rt u =
     (let f0 = empty_filter\<lparr>f_dueDate_lt := Some (now rt), f_status_ne := Some DONE\<rparr>
      in if role u = MEMBER then f0\<lparr>f_assignee := Some (u_id u)\<rparr> else f0)"

definition getOverdueTasks :: "runtime \<Rightarrow> db \<Rightarrow> user option \<Rightarrow> error + populated_task list" where
  "getOverdueTasks rt d req_user =
     (case req_user of
        None \<Rightarrow> Inl (AppError ''Authentication required'' 401)
      | Some u \<Rightarrow>
          Inr (map (populate d) (sortTasks SortDueDate Asc (Task_find rt (overdueFilter rt u) d))))"

section \<open>Writing tasks (models/Task.ts, controllers/tasks.ts)\<close>

text \<open>The activity log is append-only; the entry takes the clock as its timestamp.\<close>

definition ActivityLog_create ::
  "runtime \<Rightarrow> string \<Rightarrow> string \<Rightarrow> ActivityAction \<Rightarrow> json \<Rightarrow> db \<Rightarrow> db" where
  "ActivityLog_create rt tid uid act ch d =
     d\<lparr>logs := logs d @ [\<lparr>taskId = tid, userId = uid, action = act, changes = ch,
                            timestamp = now rt\<rparr>]\<rparr>"

text \<open>
  Casting a string to a date field: the empty string is null, a string the run time
  cannot parse is a cast error.
\<close>

definition castDate :: "runtime \<Rightarrow> string \<Rightarrow> date_field option" where
  "castDate rt s =
     (if s = [] then Some Null
      else (case parseDate rt s of None \<Rightarrow> None | Some d \<Rightarrow> Some (Date d)))"

text \<open>The validator of \<open>dueDate\<close>: \<open>!value || value > new Date()\<close>.\<close>

fun dueDate_valid :: "runtime \<Rightarrow> date_field \<Rightarrow> bool" where
  "dueDate_valid rt (Date d) = (d > now rt)"
| "dueDate_valid rt Absent = True"
| "dueDate_valid rt Null = True"

definition joinMessages :: "string list \<Rightarrow> string" where
  "joinMessages ms = concat (case ms of [] \<Rightarrow> [] | m # r \<Rightarrow> m # map (\<lambda>x. '', '' @ x) r)"

record create_body =
  c_title :: string
  c_description :: "string option"
  c_status :: "TaskStatus option"
  c_priority :: "TaskPriority option"
  c_dueDate :: "string option"
  c_tags :: "string list option"
  c_assignee :: string

text \<open>
  \<open>Task.create\<close>: setters and defaults, then the schema validators, then the
  \<open>pre("save")\<close> hook, then the insert. The id of the new document is the one the
  driver generates, \<open>nid\<close>.
\<close>

definition Task_create ::
  "runtime \<Rightarrow> string \<Rightarrow> create_body \<Rightarrow> string \<Rightarrow> db \<Rightarrow> (error + task) \<times> db" where
  "Task_create rt nid b creator d =
     (let ti = trim (c_title b);
          de = map_option trim (c_description b);
          st = (case c_status b of None \<Rightarrow> TODO | Some s \<Rightarrow> s);
          pr = (case c_priority b of None \<Rightarrow> MEDIUM | Some p \<Rightarrow> p);
          due = (case c_dueDate b of None \<Rightarrow> Some Absent | Some s \<Rightarrow> castDate rt s);
          tg = (case c_tags b of None \<Rightarrow> [] | Some ts \<Rightarrow> ts);
          errs =
            (if ti = [] then [''Task title is required''] else []) @
            (if length ti > 200 then [''Title cannot exceed 200 characters''] else []) @
            (case de of None \<Rightarrow> []
             | Some x \<Rightarrow> if length x > 2000
                         then [''Description cannot exceed 2000 characters''] else []) @
            (case due of None \<Rightarrow> [''Cast to date failed'']
             | Some v \<Rightarrow> if dueDate_valid rt v then [] else [''Due date must be in the future'']) @
            (if length tg \<le> 10 then [] else [''Cannot have more than 10 tags'']) @
            (if c_assignee b = [] then [''Assignee is required''] else []) @
            (if creator = [] then [''Created by is required''] else [])
      in if errs \<noteq> [] then (Inl (ValidationError (joinMessages errs)), d)
         else
           (let t = \<lparr>t_id = nid, title = ti, description = de, status = st, priority = pr,
                      dueDate = (case due of Some v \<Rightarrow> v | None \<Rightarrow> Absent),
                      tags = normalizeTags tg, assignee = c_assignee b, createdBy = creator,
                      createdAt = now rt, updatedAt = now rt\<rparr>
            in (Inr t, d\<lparr>tasks := tasks d @ [t]\<rparr>)))"

definition createTask ::
  "runtime \<Rightarrow> string \<Rightarrow> db \<Rightarrow> user option \<Rightarrow> create_body \<Rightarrow> (error + populated_task) \<times> db" where
  "createTask rt nid d req_user b =
     (case req_user of
        None \<Rightarrow> (Inl (AppError ''Authentication required'' 401), d)
      | Some u \<Rightarrow>
          (case User_findById d (c_assignee b) of
             None \<Rightarrow> (Inl (AppError ''Assignee not found'' 404), d)
           | Some assigneeUser \<Rightarrow>
               (case Task_create rt nid b (u_id u) d of
                  (Inl e, d1) \<Rightarrow> (Inl e, d1)
                | (Inr t, d1) \<Rightarrow>
                    (let d2 = ActivityLog_create rt (t_id t) (u_id u) CREATE
                                (JObject [(''title'', JString (c_title b)),
                                          (''assignee'', JString (email assigneeUser))]) d1
                     in (Inr (populate d2 t), d2)))))"

text \<open>The body of an update: a field that was not sent is \<open>None\<close> (\<open>undefined\<close>).\<close>

datatype date_param = NotGiven | GivenNull | GivenString string

record update_body =
  up_title :: "string option"
  up_description :: "string option"
  up_status :: "TaskStatus option"
  up_priority :: "TaskPriority option"
  up_dueDate :: date_param
  up_tags :: "string list option"
  up_assignee :: "string option"

text \<open>The fields an update is compared on, and their names in the \<open>changes\<close> object.\<close>

datatype field = F_title | F_description | F_status | F_priority | F_dueDate | F_tags
  | F_assignee

fun field_name :: "field \<Rightarrow> string" where
  "field_name F_title = ''title''"
| "field_name F_description = ''description''"
| "field_name F_status = ''status''"
| "field_name F_priority = ''priority''"
| "field_name F_dueDate = ''dueDate''"
| "field_name F_tags = ''tags''"
| "field_name F_assignee = ''assignee''"

text \<open>
  The value of a field as \<open>JSON.stringify\<close> sees it, in the stored document (a date
  prints as its ISO string) and in the body (a due date is the string that was sent).
  \<open>JSON.stringify\<close> is injective on these values, so two serialisations differ
  exactly when these JSON values differ.
\<close>

fun originalValue :: "runtime \<Rightarrow> task \<Rightarrow> field \<Rightarrow> json" where
  "originalValue rt t F_title = JString (title t)"
| "originalValue rt t F_description =
     (case description t of None \<Rightarrow> JUndefined | Some x \<Rightarrow> JString x)"
| "originalValue rt t F_status = JString (TaskStatus_str (status t))"
| "originalValue rt t F_priority = JString (TaskPriority_str (priority t))"
| "originalValue rt t F_dueDate =
     (case dueDate t of Absent \<Rightarrow> JUndefined | Null \<Rightarrow> JNull
      | Date x \<Rightarrow> JString (toISOString rt x))"
| "originalValue rt t F_tags = JArray (map JString (tags t))"
| "originalValue rt t F_assignee = JString (assignee t)"

fun newValue :: "update_body \<Rightarrow> field \<Rightarrow> json" where
  "newValue upd F_title = (case up_title upd of None \<Rightarrow> JUndefined | Some x \<Rightarrow> JString x)"
| "newValue upd F_description =
     (case up_description upd of None \<Rightarrow> JUndefined | Some x \<Rightarrow> JString x)"
| "newValue upd F_status =
     (case up_status upd of None \<Rightarrow> JUndefined | Some x \<Rightarrow> JString (TaskStatus_str x))"
| "newValue upd F_priority =
     (case up_priority upd of None \<Rightarrow> JUndefined | Some x \<Rightarrow> JString (TaskPriority_str x))"
| "newValue upd F_dueDate =
     (case up_dueDate upd of NotGiven \<Rightarrow> JUndefined | GivenNull \<Rightarrow> JNull
      | GivenString x \<Rightarrow> JString x)"
| "newValue upd F_tags =
     (case up_tags upd of None \<Rightarrow> JUndefined | Some xs \<Rightarrow> JArray (map JString xs))"
| "newValue upd F_assignee =
     (case up_assignee upd of None \<Rightarrow> JUndefined | Some a \<Rightarrow> JString a)"

text \<open>
  The pair recorded for a changed field. A property whose value is \<open>undefined\<close> is
  not stored, so the pair of a field that had no value has no \<open>from\<close>.
\<close>

definition fromTo :: "json \<Rightarrow> json \<Rightarrow> json" where
  "fromTo a b = JObject ((if a = JUndefined then [] else [(''from'', a)]) @ [(''to'', b)])"

definition diffFields :: "field list" where
  "diffFields = [F_title, F_description, F_status, F_priority, F_dueDate, F_tags]"

definition fieldChanges :: "runtime \<Rightarrow> task \<Rightarrow> update_body \<Rightarrow> (string \<times> json) list" where
  "fieldChanges rt t upd =
     concat (map (\<lambda>f.
        if newValue upd f \<noteq> JUndefined \<and> newValue upd f \<noteq> originalValue rt t f
        then [(field_name f, fromTo (originalValue rt t f) (newValue upd f))] else [])
      diffFields)"

text \<open>
  The change of assignee: looked at when the body names a non-empty assignee whose text
  is not the text of the current one; \<open>User.findById\<close> casts the string to an object
  id, and that user must exist. The pair records the string as it was sent.
\<close>

definition assigneeChange ::
  "runtime \<Rightarrow> db \<Rightarrow> task \<Rightarrow> update_body \<Rightarrow> error + (string \<times> json) list" where
  "assigneeChange rt d t upd =
     (case up_assignee upd of
        None \<Rightarrow> Inr []
      | Some a \<Rightarrow>
          if a \<noteq> [] \<and> a \<noteq> assignee t
          then (case ObjectId_cast a of
                  None \<Rightarrow> Inl CastError
                | Some oid \<Rightarrow>
                    (case User_findById d oid of
                       None \<Rightarrow> Inl (AppError ''Assignee not found'' 404)
                     | Some assigneeUser \<Rightarrow>
                         Inr [(field_name F_assignee,
                               fromTo (originalValue rt t F_assignee)
                                 (newValue upd F_assignee))]))
          else Inr [])"

text \<open>
  \<open>Task.findByIdAndUpdate(id, updates, {new: true, runValidators: true})\<close>: the fields
  of the body are cast, passed through their setters and validators, and written as
  they are; the update stamps \<open>updatedAt\<close>. The \<open>pre("save")\<close> hook is save middleware
  and does not run on an update. The assignee is written as the object id its string
  casts to; a string that does not cast (the empty string is one) fails the update.
\<close>

definition applyUpdates :: "runtime \<Rightarrow> update_body \<Rightarrow> task \<Rightarrow> error + task" where
  "applyUpdates rt upd t =
     (let ti = map_option trim (up_title upd);
          de = map_option trim (up_description upd);
          due = (case up_dueDate upd of
                   NotGiven \<Rightarrow> Some (dueDate t)
                 | GivenNull \<Rightarrow> Some Null
                 | GivenString s \<Rightarrow> castDate rt s);
          errs =
            (case ti of None \<Rightarrow> []
             | Some x \<Rightarrow> (if x = [] then [''Task title is required''] else []) @
                 (if length x > 200 then [''Title cannot exceed 200 characters''] else [])) @
            (case de of None \<Rightarrow> []
             | Some x \<Rightarrow> if length x > 2000
                         then [''Description cannot exceed 2000 characters''] else []) @
            (case due of None \<Rightarrow> [''Cast to date failed'']
             | Some v \<Rightarrow> if up_dueDate upd = NotGiven \<or> dueDate_valid rt v then []
                         else [''Due date must be in the future'']) @
            (case up_tags upd of None \<Rightarrow> []
             | Some ts \<Rightarrow> if length ts \<le> 10 then []
                         else [''Cannot have more than 10 tags''])
      in if (case up_assignee upd of None \<Rightarrow> False | Some a \<Rightarrow> ObjectId_cast a = None)
         then Inl CastError
         else if errs \<noteq> [] then Inl (ValidationError (joinMessages errs))
         else Inr (t\<lparr>title := (case ti of None \<Rightarrow> title t | Some x \<Rightarrow> x),
                     description := (case de of None \<Rightarrow> description t | Some x \<Rightarrow> Some x),
                     status := (case up_status upd of None \<Rightarrow> status t | Some x \<Rightarrow> x),
                     priority := (case up_priority upd of None \<Rightarrow> priority t | Some x \<Rightarrow> x),
                     dueDate := (case due of None \<Rightarrow> dueDate t | Some v \<Rightarrow> v),
                     tags := (case up_tags upd of None \<Rightarrow> tags t | Some ts \<Rightarrow> ts),
                     assignee := (case up_assignee upd of None \<Rightarrow> assignee t
                                  | Some a \<Rightarrow>
                                      (case ObjectId_cast a of None \<Rightarrow> assignee t
                                       | Some oid \<Rightarrow> oid)),
                     updatedAt := now rt\<rparr>))"

text \<open>The store acts on the first document with the id (ids are unique in a collection).\<close>

fun updateFirst :: "('a \<Rightarrow> bool) \<Rightarrow> 'a \<Rightarrow> 'a list \<Rightarrow> 'a list" where
  "updateFirst P y [] = []"
| "updateFirst P y (x # xs) = (if P x then y # xs else x # updateFirst P y xs)"

fun deleteFirst :: "('a \<Rightarrow> bool) \<Rightarrow> 'a list \<Rightarrow> 'a list" where
  "deleteFirst P [] = []"
| "deleteFirst P (x # xs) = (if P x then xs else x # deleteFirst P xs)"

definition updateTask ::
  "runtime \<Rightarrow> db \<Rightarrow> user option \<Rightarrow> string \<Rightarrow> update_body \<Rightarrow> (error + populated_task) \<times> db" where
  "updateTask rt d req_user i updates =
     (case req_user of
        None \<Rightarrow> (Inl (AppError ''Authentication required'' 401), d)
      | Some u \<Rightarrow>
          (case Task_findById d i of
             None \<Rightarrow> (Inl (AppError ''Task not found'' 404), d)
           | Some t \<Rightarrow>
               if role u = MEMBER \<and> assignee t \<noteq> u_id u
               then (Inl (AppError ''Access denied. You can only update your assigned tasks.'' 403), d)
               else
                 (case assigneeChange rt d t updates of
                    Inl e \<Rightarrow> (Inl e, d)
                  | Inr ach \<Rightarrow>
                      (let chs = ach @ fieldChanges rt t updates
                       in case applyUpdates rt updates t of
                            Inl e \<Rightarrow> (Inl e, d)
                          | Inr t' \<Rightarrow>
                              (let d1 = d\<lparr>tasks := updateFirst (\<lambda>x. t_id x = i) t' (tasks d)\<rparr>;
                                   d2 = (if chs \<noteq> []
                                         then ActivityLog_create rt i (u_id u) UPDATE (JObject chs) d1
                                         else d1)
                               in (Inr (populate d2 t'), d2))))))"

definition deleteTask ::
  "runtime \<Rightarrow> db \<Rightarrow> user option \<Rightarrow> string \<Rightarrow> (error + unit) \<times> db" where
  "deleteTask rt d req_user i =
     (case req_user of
        None \<Rightarrow> (Inl (AppError ''Authentication required'' 401), d)
      | Some u \<Rightarrow>
          (case Task_findById d i of
             None \<Rightarrow> (Inl (AppError ''Task not found'' 404), d)
           | Some t \<Rightarrow>
               if role u = MEMBER \<and> assignee t \<noteq> u_id u
               then (Inl (AppError ''Access denied. You can only delete your assigned tasks.'' 403), d)
               else
                 (let d1 = d\<lparr>tasks := deleteFirst (\<lambda>x. t_id x = i) (tasks d)\<rparr>;
                      d2 = ActivityLog_create rt i (u_id u) DELETE
                             (JObject [(''title'', JString (title t))]) d1
                  in (Inr (), d2))))"

section \<open>Bulk update (controllers/tasks.ts, bulkUpdateTasks; validation/task.ts; middleware/auth.ts)\<close>

record bulk_updates =
  b_status :: "TaskStatus option"
  b_priority :: "TaskPriority option"
  b_assignee :: "string option"
  b_tags :: "string list option"

record bulk_body =
  taskIds :: "string list"
  updates :: bulk_updates

record bulk_result =
  matchedCount :: nat
  modifiedCount :: nat

definition bulk_updates_json :: "bulk_updates \<Rightarrow> json" where
  "bulk_updates_json upd = JObject
     ((case b_status upd of None \<Rightarrow> [] | Some x \<Rightarrow> [(''status'', JString (TaskStatus_str x))]) @
      (case b_priority upd of None \<Rightarrow> []
       | Some x \<Rightarrow> [(''priority'', JString (TaskPriority_str x))]) @
      (case b_assignee upd of None \<Rightarrow> [] | Some x \<Rightarrow> [(''assignee'', JString x)]) @
      (case b_tags upd of None \<Rightarrow> [] | Some xs \<Rightarrow> [(''tags'', JArray (map JString xs))]))"

definition applyBulk :: "runtime \<Rightarrow> bulk_updates \<Rightarrow> task \<Rightarrow> task" where
  "applyBulk rt upd t =
     t\<lparr>status := (case b_status upd of None \<Rightarrow> status t | Some x \<Rightarrow> x),
       priority := (case b_priority upd of None \<Rightarrow> priority t | Some x \<Rightarrow> x),
       assignee := (case b_assignee upd of None \<Rightarrow> assignee t | Some a \<Rightarrow> a),
       tags := (case b_tags upd of None \<Rightarrow> tags t | Some ts \<Rightarrow> ts),
       updatedAt := now rt\<rparr>"

text \<open>
  \<open>Task.updateMany({_id: {$in: ids}}, updates, {runValidators: true})\<close>: the update is
  validated once, then written to every stored task whose id is among \<open>ids\<close>.
\<close>

definition Task_updateMany ::
  "runtime \<Rightarrow> string list \<Rightarrow> bulk_updates \<Rightarrow> db \<Rightarrow> (error + bulk_result) \<times> db" where
  "Task_updateMany rt ids upd d =
     (if b_assignee upd = Some [] then (Inl CastError, d)
      else if (case b_tags upd of None \<Rightarrow> False | Some ts \<Rightarrow> \<not> length ts \<le> 10)
      then (Inl (ValidationError ''Cannot have more than 10 tags''), d)
      else
        (let matched = filter (\<lambda>t. t_id t \<in> set ids) (tasks d)
         in (Inr \<lparr>matchedCount = length matched,
                   modifiedCount = length (filter (\<lambda>t. applyBulk rt upd t \<noteq> t) matched)\<rparr>,
             d\<lparr>tasks := map (\<lambda>t. if t_id t \<in> set ids then applyBulk rt upd t else t)
                            (tasks d)\<rparr>)))"

text \<open>The log entries of a batch: one \<open>ActivityLog.create\<close> for each id of the list.\<close>

fun logBulk :: "runtime \<Rightarrow> string \<Rightarrow> bulk_updates \<Rightarrow> string list \<Rightarrow> db \<Rightarrow> db" where
  "logBulk rt uid upd [] d = d"
| "logBulk rt uid upd (tid # rest) d =
     logBulk rt uid upd rest
       (ActivityLog_create rt tid uid UPDATE
          (JObject [(''bulk'', JBool True), (''updates'', bulk_updates_json upd)]) d)"

definition bulkUpdateTasks ::
  "runtime \<Rightarrow> db \<Rightarrow> user option \<Rightarrow> bulk_body \<Rightarrow> (error + bulk_result) \<times> db" where
  "bulkUpdateTasks rt d req_user body =
     (case req_user of
        None \<Rightarrow> (Inl (AppError ''Authentication required'' 401), d)
      | Some u \<Rightarrow>
          (let validTaskIds = filter (ObjectId_isValid rt) (taskIds body)
           in if length validTaskIds \<noteq> length (taskIds body)
              then (Inl (AppError ''One or more task IDs are invalid'' 400), d)
              else if truthy (b_assignee (updates body)) \<and>
                      (case b_assignee (updates body) of None \<Rightarrow> False
                       | Some a \<Rightarrow> User_findById d a = None)
              then (Inl (AppError ''Assignee not found'' 404), d)
              else
                (case Task_updateMany rt validTaskIds (updates body) d of
                   (Inl e, d1) \<Rightarrow> (Inl e, d1)
                 | (Inr result, d1) \<Rightarrow>
                     (Inr result, logBulk rt (u_id u) (updates body) validTaskIds d1))))"

text \<open>\<open>requireAdmin\<close> (middleware/auth.ts).\<close>

definition requireAdmin :: "user option \<Rightarrow> error option" where
  "requireAdmin req_user =
     (case req_user of
        None \<Rightarrow> Some (AppError ''Authentication required.'' 401)
      | Some u \<Rightarrow>
          if role u \<noteq> ADMIN
          then Some (AppError ''Access denied. Admin privileges required.'' 403)
          else None)"

text \<open>
  \<open>bulkUpdateValidation\<close> (validation/task.ts): the messages of the rules that fail.
  An id must match \<open>/^[0-9a-fA-F]{24}$/\<close>; \<open>isMongoId\<close> asks the same of the assignee.
\<close>

definition bulkUpdateValidation :: "bulk_body \<Rightarrow> string list" where
  "bulkUpdateValidation body =
     (let ids = taskIds body; upd = updates body
      in (if 1 \<le> length ids \<and> length ids \<le> 50 then []
          else [''Task IDs must be an array with 1-50 items'']) @
         (if list_ex (\<lambda>i. \<not> isMongoId i) ids
          then [''All task IDs must be valid MongoDB ObjectIds''] else []) @
         (if b_status upd = None \<and> b_priority upd = None \<and> b_assignee upd = None \<and>
             b_tags upd = None
          then [''At least one update field is required''] else []) @
         (case b_assignee upd of None \<Rightarrow> []
          | Some a \<Rightarrow> if isMongoId a then [] else [''Assignee must be a valid user ID'']) @
         (case b_tags upd of None \<Rightarrow> []
          | Some ts \<Rightarrow>
              (if length ts \<le> 10 then [] else [''Tags must be an array with maximum 10 items'']) @
              (if list_ex (\<lambda>tag. length (trim tag) = 0) ts
               then [''All tags must be non-empty strings''] else [])))"

text \<open>
  Modelled from the spec: \<open>handleValidationErrors\<close> (middleware/validation.ts, not
  among the sources). Validation runs before any store access; a malformed input fails
  the request with the field messages joined into one message.
\<close>

definition handleValidationErrors :: "string list \<Rightarrow> error option" where
  "handleValidationErrors msgs =
     (if msgs = [] then None else Some (AppError (joinMessages msgs) 400))"

text \<open>
  The route \<open>PATCH /tasks/bulk\<close> (routes/tasks.ts): \<open>requireAdmin\<close>, the validation,
  then the handler.
\<close>

definition bulkUpdateRoute ::
  "runtime \<Rightarrow> db \<Rightarrow> user option \<Rightarrow> bulk_body \<Rightarrow> (error + bulk_result) \<times> db" where
  "bulkUpdateRoute rt d req_user body =
     (case requireAdmin req_user of
        Some e \<Rightarrow> (Inl e, d)
      | None \<Rightarrow>
          (case handleValidationErrors (bulkUpdateValidation body) of
             Some e \<Rightarrow> (Inl e, d)
           | None \<Rightarrow> bulkUpdateTasks rt d req_user body))"

section \<open>Deleting a user (controllers/users.ts, deleteUser)\<close>

definition deleteUser :: "runtime \<Rightarrow> db \<Rightarrow> user option \<Rightarrow> string \<Rightarrow> (error + unit) \<times> db" where
  "deleteUser rt d req_user i =
     (if \<not> ObjectId_isValid rt i then (Inl (AppError ''Invalid user ID format'' 400), d)
      else if map_option u_id req_user = Some i
      then (Inl (AppError ''You cannot delete your own account'' 400), d)
      else
        (case User_findById d i of
           None \<Rightarrow> (Inl (AppError ''User not found'' 404), d)
         | Some u \<Rightarrow>
             (let assignedTasks = Task_countDocuments rt (empty_filter\<lparr>f_assignee := Some i\<rparr>) d
              in if assignedTasks > 0
                 then (Inl (AppError (''Cannot delete user. They have '' @ showNat (nat assignedTasks) @
                         '' assigned task(s). Please reassign these tasks first.'') 400), d)
                 else (Inr (), d\<lparr>users := deleteFirst (\<lambda>x. u_id x = i) (users d)\<rparr>))))"

section \<open>Users and sessions (models/User.ts, utils/jwt.ts, middleware/auth.ts, controllers/auth.ts, controllers/users.ts)\<close>

text \<open>
  A user document as an object: the password is a field of the object only when the
  document holds it. The \<open>toJSON\<close> transform of the user schema deletes \<open>password\<close>.
\<close>

definition user_toObject :: "runtime \<Rightarrow> user \<Rightarrow> (string \<times> json) list" where
  "user_toObject rt u =
     [(''_id'', JString (u_id u)), (''email'', JString (email u))] @
     (case password u of None \<Rightarrow> [] | Some h \<Rightarrow> [(''password'', JString h)]) @
     [(''role'', JString (UserRole_str (role u))),
      (''firstName'', JString (firstName u)), (''lastName'', JString (lastName u)),
      (''createdAt'', JString (toISOString rt (u_createdAt u))),
      (''updatedAt'', JString (toISOString rt (u_updatedAt u)))]"

definition user_toJSON :: "runtime \<Rightarrow> user \<Rightarrow> json" where
  "user_toJSON rt u = JObject (filter (\<lambda>kv. fst kv \<noteq> ''password'') (user_toObject rt u))"

definition user_ref_toJSON :: "user_ref option \<Rightarrow> json" where
  "user_ref_toJSON r =
     (case r of
        None \<Rightarrow> JNull
      | Some x \<Rightarrow> JObject [(''_id'', JString (ref_id x)), (''firstName'', JString (ref_firstName x)),
                           (''lastName'', JString (ref_lastName x)), (''email'', JString (ref_email x))])"

definition task_toJSON :: "runtime \<Rightarrow> populated_task \<Rightarrow> json" where
  "task_toJSON rt pt =
     (let t = doc pt
      in JObject
        ([(''_id'', JString (t_id t)), (''title'', JString (title t))] @
         (case description t of None \<Rightarrow> [] | Some x \<Rightarrow> [(''description'', JString x)]) @
         [(''status'', JString (TaskStatus_str (status t))),
          (''priority'', JString (TaskPriority_str (priority t)))] @
         (case dueDate t of Absent \<Rightarrow> [] | Null \<Rightarrow> [(''dueDate'', JNull)]
          | Date x \<Rightarrow> [(''dueDate'', JString (toISOString rt x))]) @
         [(''tags'', JArray (map JString (tags t))),
          (''assignee'', user_ref_toJSON (assignee_doc pt)),
          (''createdBy'', user_ref_toJSON (createdBy_doc pt)),
          (''createdAt'', JString (toISOString rt (createdAt t))),
          (''updatedAt'', JString (toISOString rt (updatedAt t)))]))"

text \<open>What \<open>res.status(code).json(body)\<close> sends.\<close>

record response =
  res_status :: nat
  res_body :: json

definition apiResponse :: "nat \<Rightarrow> string \<Rightarrow> (string \<times> json) list \<Rightarrow> response" where
  "apiResponse code msg extra =
     \<lparr>res_status = code,
      res_body = JObject ([(''success'', JBool True), (''message'', JString msg)] @ extra)\<rparr>"

definition pagination_toJSON :: "pagination \<Rightarrow> json" where
  "pagination_toJSON p = JObject
     [(''currentPage'', JNum (currentPage p)), (''totalPages'', JNum (totalPages p)),
      (''totalItems'', JNum (totalItems p)), (''itemsPerPage'', JNum (itemsPerPage p)),
      (''hasNextPage'', JBool (hasNextPage p)), (''hasPrevPage'', JBool (hasPrevPage p))]"

text \<open>The response of \<open>getTasks\<close> as it is sent.\<close>

definition getTasks_response :: "runtime \<Rightarrow> tasks_response \<Rightarrow> response" where
  "getTasks_response rt r =
     apiResponse 200 ''Tasks retrieved successfully''
       [(''data'', JObject [(''tasks'', JArray (map (task_toJSON rt) (r_tasks r)))]),
        (''pagination'', pagination_toJSON (r_pagination r))]"

text \<open>\<open>sendTokenResponse\<close> (utils/jwt.ts): the token is signed for the user's id.\<close>

definition sendTokenResponse :: "runtime \<Rightarrow> user \<Rightarrow> nat \<Rightarrow> string \<Rightarrow> response" where
  "sendTokenResponse rt u code msg =
     apiResponse code msg
       [(''data'', JObject [(''user'', user_toJSON rt u),
                           (''token'', JString (jwt_sign rt (u_id u)))])]"

text \<open>
  \<open>User.create\<close>: setters (the e-mail lower-cased and trimmed, the names trimmed), the
  schema validators, the \<open>pre("save")\<close> hook that hashes the password, the unique index
  on the e-mail, the insert. The document returned holds the hash.
\<close>

record register_body =
  rb_email :: string
  rb_password :: string
  rb_firstName :: string
  rb_lastName :: string
  rb_role :: "UserRole option"

definition isNamePattern :: "string \<Rightarrow> bool" where
  "isNamePattern s =
     (s \<noteq> [] \<and>
      list_all (\<lambda>c. (65 \<le> (of_char c :: nat) \<and> (of_char c :: nat) \<le> 90) \<or>
                    (97 \<le> (of_char c :: nat) \<and> (of_char c :: nat) \<le> 122) \<or> isWhiteSpace c) s)"

definition User_create ::
  "runtime \<Rightarrow> string \<Rightarrow> register_body \<Rightarrow> UserRole \<Rightarrow> db \<Rightarrow> (error + user) \<times> db" where
  "User_create rt nid b r d =
     (let em = trim (toLowerCase (rb_email b));
          fn = trim (rb_firstName b);
          ln = trim (rb_lastName b);
          errs =
            (if em = [] then [''Email is required'']
             else if emailPattern_test rt em then [] else [''Please provide a valid email'']) @
            (if rb_password b = [] then [''Password is required'']
             else if length (rb_password b) < 6
             then [''Password must be at least 6 characters long''] else []) @
            (if fn = [] then [''First name is required'']
             else (if length fn > 50 then [''First name cannot exceed 50 characters''] else []) @
                  (if isNamePattern fn then []
                   else [''First name can only contain letters and spaces''])) @
            (if ln = [] then [''Last name is required'']
             else (if length ln > 50 then [''Last name cannot exceed 50 characters''] else []) @
                  (if isNamePattern ln then []
                   else [''Last name can only contain letters and spaces'']))
      in if errs \<noteq> [] then (Inl (ValidationError (joinMessages errs)), d)
         else if list_ex (\<lambda>x. email x = em) (users d) then (Inl (DuplicateKey ''email''), d)
         else
           (let u = \<lparr>u_id = nid, email = em, password = Some (bcrypt_hash rt (rb_password b)),
                      role = r, firstName = fn, lastName = ln,
                      u_createdAt = now rt, u_updatedAt = now rt\<rparr>
            in (Inr u, d\<lparr>users := users d @ [u]\<rparr>)))"

text \<open>\<open>User.findOne({email})\<close>, with the default projection or with \<open>+password\<close>.\<close>

definition User_findOne_email_stored :: "db \<Rightarrow> string \<Rightarrow> user option" where
  "User_findOne_email_stored d e = find (\<lambda>u. email u = e) (users d)"

definition User_findOne_email :: "db \<Rightarrow> string \<Rightarrow> user option" where
  "User_findOne_email d e = map_option select_default (User_findOne_email_stored d e)"

definition register :: "runtime \<Rightarrow> string \<Rightarrow> db \<Rightarrow> register_body \<Rightarrow> (error + response) \<times> db" where
  "register rt nid d b =
     (case User_findOne_email d (rb_email b) of
        Some existingUser \<Rightarrow> (Inl (AppError ''User with this email already exists'' 400), d)
      | None \<Rightarrow>
          (case User_create rt nid b (case rb_role b of None \<Rightarrow> MEMBER | Some r \<Rightarrow> r) d of
             (Inl e, d1) \<Rightarrow> (Inl e, d1)
           | (Inr u, d1) \<Rightarrow> (Inr (sendTokenResponse rt u 201 ''User registered successfully''), d1)))"

record login_body =
  lb_email :: string
  lb_password :: string

text \<open>
  The user document \<open>login\<close> hands to \<open>sendTokenResponse\<close>: found with \<open>+password\<close>,
  checked with \<open>comparePassword\<close>, then its password set to \<open>undefined\<close>.
\<close>

definition login_user :: "runtime \<Rightarrow> db \<Rightarrow> login_body \<Rightarrow> error + user" where
  "login_user rt d b =
     (case User_findOne_email_stored d (lb_email b) of
        None \<Rightarrow> Inl (AppError ''Invalid credentials'' 401)
      | Some u \<Rightarrow>
          (case password u of
             None \<Rightarrow> Inl (OtherError ''Illegal arguments'')
           | Some h \<Rightarrow>
               if \<not> bcrypt_compare rt (lb_password b) h
               then Inl (AppError ''Invalid credentials'' 401)
               else Inr (u\<lparr>password := None\<rparr>)))"

definition login :: "runtime \<Rightarrow> db \<Rightarrow> login_body \<Rightarrow> error + response" where
  "login rt d b =
     (case login_user rt d b of
        Inl e \<Rightarrow> Inl e
      | Inr u \<Rightarrow> Inr (sendTokenResponse rt u 200 ''Logged in successfully''))"

text \<open>\<open>authenticate\<close> (middleware/auth.ts): the user the request carries afterwards.\<close>

definition authenticate :: "runtime \<Rightarrow> db \<Rightarrow> string option \<Rightarrow> error + user" where
  "authenticate rt d token =
     (case token of
        None \<Rightarrow> Inl (AppError ''Access denied. No token provided.'' 401)
      | Some tok \<Rightarrow>
          if tok = [] then Inl (AppError ''Access denied. No token provided.'' 401)
          else
            (case jwt_verify rt tok of
               TokenExpiredError \<Rightarrow> Inl (AppError ''Token expired.'' 401)
             | JsonWebTokenError \<Rightarrow> Inl (AppError ''Invalid token.'' 401)
             | JwtPayload uid \<Rightarrow>
                 (case User_findById d uid of
                    None \<Rightarrow> Inl (AppError ''Token is valid but user no longer exists.'' 401)
                  | Some u \<Rightarrow> Inr (u\<lparr>password := None\<rparr>))))"

definition getProfile :: "runtime \<Rightarrow> user option \<Rightarrow> error + response" where
  "getProfile rt req_user =
     (case req_user of
        None \<Rightarrow> Inl (AppError ''User not found'' 404)
      | Some u \<Rightarrow>
          Inr (apiResponse 200 ''Profile retrieved successfully''
                 [(''data'', JObject [(''user'', user_toJSON rt u)])]))"

text \<open>The route \<open>GET /auth/profile\<close>: \<open>authenticate\<close>, then \<open>getProfile\<close>.\<close>

definition profileRoute :: "runtime \<Rightarrow> db \<Rightarrow> string option \<Rightarrow> error + response" where
  "profileRoute rt d token =
     (case authenticate rt d token of
        Inl e \<Rightarrow> Inl e
      | Inr u \<Rightarrow> getProfile rt (Some u))"

datatype user_sort_field = SortFirstName | SortLastName | SortEmail | SortRole
  | SortUserCreatedAt | SortUserUpdatedAt

record UserQuery =
  uq_search :: "string option"
  uq_role :: "UserRole option"
  uq_page :: "int option"
  uq_limit :: "int option"
  uq_sortBy :: "user_sort_field option"
  uq_sortOrder :: "sort_order option"

definition matchesUserFilter :: "runtime \<Rightarrow> UserQuery \<Rightarrow> user \<Rightarrow> bool" where
  "matchesUserFilter rt q u =
     ((if truthy (uq_search q)
       then (case uq_search q of
               None \<Rightarrow> True
             | Some s \<Rightarrow> regexMatchI rt s (firstName u) \<or> regexMatchI rt s (lastName u) \<or>
                         regexMatchI rt s (email u))
       else True) \<and>
      (case uq_role q of None \<Rightarrow> True | Some r \<Rightarrow> role u = r))"

fun sort_users_asc :: "user_sort_field \<Rightarrow> user list \<Rightarrow> user list" where
  "sort_users_asc SortFirstName us = sort_key firstName us"
| "sort_users_asc SortLastName us = sort_key lastName us"
| "sort_users_asc SortEmail us = sort_key email us"
| "sort_users_asc SortRole us = sort_key (\<lambda>u. UserRole_str (role u)) us"
| "sort_users_asc SortUserCreatedAt us = sort_key u_createdAt us"
| "sort_users_asc SortUserUpdatedAt us = sort_key u_updatedAt us"

definition sortUsers :: "user_sort_field \<Rightarrow> sort_order \<Rightarrow> user list \<Rightarrow> user list" where
  "sortUsers field ord us =
     (if ord = Asc then sort_users_asc field us else rev (sort_users_asc field us))"

definition getUsers :: "runtime \<Rightarrow> db \<Rightarrow> UserQuery \<Rightarrow> error + response" where
  "getUsers rt d q =
     (let pageNumber = max 1 (case uq_page q of None \<Rightarrow> 1 | Some p \<Rightarrow> p);
          limitNumber = min 100 (max 1 (case uq_limit q of None \<Rightarrow> 10 | Some l \<Rightarrow> l));
          skip = (pageNumber - 1) * limitNumber;
          field = (case uq_sortBy q of None \<Rightarrow> SortUserCreatedAt | Some f \<Rightarrow> f);
          ord = (case uq_sortOrder q of None \<Rightarrow> Desc | Some x \<Rightarrow> x);
          matching = filter (matchesUserFilter rt q) (users d);
          found = map (\<lambda>u. u\<lparr>password := None\<rparr>)
                    (take (nat limitNumber) (drop (nat skip) (sortUsers field ord matching)));
          totalUsers = int (length matching);
          totalPages = Math_ceil_div totalUsers limitNumber
      in Inr (apiResponse 200 ''Users retrieved successfully''
                [(''data'', JObject [(''users'', JArray (map (user_toJSON rt) found))]),
                 (''pagination'', pagination_toJSON
                    \<lparr>currentPage = pageNumber, totalPages = totalPages,
                     totalItems = totalUsers, itemsPerPage = limitNumber,
                     hasNextPage = (pageNumber < totalPages),
                     hasPrevPage = (pageNumber > 1)\<rparr>)]))"

text \<open>\<open>getUserById\<close>: the user without the password, and the task counts by status.\<close>

definition countStatus :: "db \<Rightarrow> string \<Rightarrow> TaskStatus \<Rightarrow> int" where
  "countStatus d i s = int (length (filter (\<lambda>t. assignee t = i \<and> status t = s) (tasks d)))"

definition getUserById :: "runtime \<Rightarrow> db \<Rightarrow> string \<Rightarrow> error + response" where
  "getUserById rt d i =
     (if \<not> ObjectId_isValid rt i then Inl (AppError ''Invalid user ID format'' 400)
      else
        (case map_option (\<lambda>u. u\<lparr>password := None\<rparr>) (User_findById d i) of
           None \<Rightarrow> Inl (AppError ''User not found'' 404)
         | Some u \<Rightarrow>
             Inr (apiResponse 200 ''User retrieved successfully''
                    [(''data'', JObject
                       [(''user'', user_toJSON rt u),
                        (''taskStats'', JObject
                           [(''todo'', JNum (countStatus d i TODO)),
                            (''in-progress'', JNum (countStatus d i IN_PROGRESS)),
                            (''done'', JNum (countStatus d i DONE)),
                            (''total'', JNum (countStatus d i TODO + countStatus d i IN_PROGRESS +
                                             countStatus d i DONE))])])])))"

text \<open>Whether a key occurs anywhere in a JSON value.\<close>

fun has_key :: "string \<Rightarrow> json \<Rightarrow> bool" where
  "has_key k (JObject kvs) = list_ex (\<lambda>kv. fst kv = k \<or> has_key k (snd kv)) kvs"
| "has_key k (JArray xs) = list_ex (has_key k) xs"
| "has_key k JUndefined = False"
| "has_key k JNull = False"
| "has_key k (JBool b) = False"
| "has_key k (JNum n) = False"
| "has_key k (JString s) = False"

section \<open>Notions of the specification\<close>

text \<open>A request fails with a given status code.\<close>

definition failsWith :: "nat \<Rightarrow> error + 'a \<Rightarrow> bool" where
  "failsWith c r = (case r of Inl e \<Rightarrow> statusCode e = c | Inr x \<Rightarrow> False)"

text \<open>
  The specification's "the requested value of a field differs from its pre-update
  value", on the values of the field's type: a field that is not sent never differs;
  strings, enumerations and lists of tags are compared as such; a due date sent as a
  string is the date it casts to, whatever its notation; an assignee is the object id
  its string casts to, whatever the case of its digits.
\<close>

fun valueDiffers :: "runtime \<Rightarrow> task \<Rightarrow> update_body \<Rightarrow> field \<Rightarrow> bool" where
  "valueDiffers rt t upd F_title =
     (case up_title upd of None \<Rightarrow> False | Some x \<Rightarrow> x \<noteq> title t)"
| "valueDiffers rt t upd F_description =
     (case up_description upd of None \<Rightarrow> False | Some x \<Rightarrow> description t \<noteq> Some x)"
| "valueDiffers rt t upd F_status =
     (case up_status upd of None \<Rightarrow> False | Some x \<Rightarrow> x \<noteq> status t)"
| "valueDiffers rt t upd F_priority =
     (case up_priority upd of None \<Rightarrow> False | Some x \<Rightarrow> x \<noteq> priority t)"
| "valueDiffers rt t upd F_dueDate =
     (case up_dueDate upd of
        NotGiven \<Rightarrow> False
      | GivenNull \<Rightarrow> dueDate t \<noteq> Null
      | GivenString x \<Rightarrow> castDate rt x \<noteq> Some (dueDate t))"
| "valueDiffers rt t upd F_tags =
     (case up_tags upd of None \<Rightarrow> False | Some xs \<Rightarrow> xs \<noteq> tags t)"
| "valueDiffers rt t upd F_assignee =
     (case up_assignee upd of None \<Rightarrow> False | Some a \<Rightarrow> ObjectId_cast a \<noteq> Some (assignee t))"

text \<open>
  The specification's "payload identical to the current field values", field by field:
  a field is sent as stored when it is not sent at all or carries the current value in
  the form the interface prints it in: a due date as the ISO string of the stored date
  (\<open>null\<close> for a stored \<open>null\<close>), the assignee as the text of the stored id.
\<close>

fun sentAsStored :: "runtime \<Rightarrow> task \<Rightarrow> update_body \<Rightarrow> field \<Rightarrow> bool" where
  "sentAsStored rt t upd F_title =
     (case up_title upd of None \<Rightarrow> True | Some x \<Rightarrow> x = title t)"
| "sentAsStored rt t upd F_description =
     (case up_description upd of None \<Rightarrow> True | Some x \<Rightarrow> description t = Some x)"
| "sentAsStored rt t upd F_status =
     (case up_status upd of None \<Rightarrow> True | Some x \<Rightarrow> x = status t)"
| "sentAsStored rt t upd F_priority =
     (case up_priority upd of None \<Rightarrow> True | Some x \<Rightarrow> x = priority t)"
| "sentAsStored rt t upd F_dueDate =
     (case up_dueDate upd of
        NotGiven \<Rightarrow> True
      | GivenNull \<Rightarrow> dueDate t = Null
      | GivenString x \<Rightarrow>
          (case dueDate t of Date y \<Rightarrow> x = toISOString rt y | _ \<Rightarrow> False))"
| "sentAsStored rt t upd F_tags =
     (case up_tags upd of None \<Rightarrow> True | Some xs \<Rightarrow> xs = tags t)"
| "sentAsStored rt t upd F_assignee =
     (case up_assignee upd of None \<Rightarrow> True | Some a \<Rightarrow> a = assignee t)"

text \<open>
  The stored task is well formed for a run time: the run time reads the due date back
  from the string it prints for it, and the assignee is an object id in its own text.
\<close>

definition storedWell :: "runtime \<Rightarrow> task \<Rightarrow> bool" where
  "storedWell rt t =
     ((case dueDate t of Date y \<Rightarrow> castDate rt (toISOString rt y) = Some (Date y)
       | _ \<Rightarrow> True) \<and>
      ObjectId_cast (assignee t) = Some (assignee t))"

text \<open>The log entry an update writes for a given set of changes.\<close>

definition updateEntry :: "runtime \<Rightarrow> string \<Rightarrow> string \<Rightarrow> (string \<times> json) list \<Rightarrow> activity_log" where
  "updateEntry rt tid uid chs =
     \<lparr>taskId = tid, userId = uid, action = UPDATE, changes = JObject chs, timestamp = now rt\<rparr>"

text \<open>The log entry a bulk update writes for one task id.\<close>

definition bulkEntry :: "runtime \<Rightarrow> string \<Rightarrow> bulk_updates \<Rightarrow> string \<Rightarrow> activity_log" where
  "bulkEntry rt uid upd tid =
     \<lparr>taskId = tid, userId = uid, action = UPDATE,
      changes = JObject [(''bulk'', JBool True), (''updates'', bulk_updates_json upd)],
      timestamp = now rt\<rparr>"

text \<open>
  A normalized list of tags: every tag is lower-cased, trimmed and not empty, no tag
  occurs twice, and there are at most 10.
\<close>

definition tagsNormalized :: "string list \<Rightarrow> bool" where
  "tagsNormalized ts =
     (list_all (\<lambda>tag. toLowerCase tag = tag \<and> trim tag = tag \<and> tag \<noteq> []) ts \<and>
      distinct ts \<and> length ts \<le> 10)"

section \<open>A sample run time and a sample store\<close>

text \<open>
  A concrete run time for evaluating the handlers on examples. Its dates print as
  \<open>toISOString\<close> prints them (years 0 to 9999), its parser reads that format and the
  date-only form \<open>YYYY-MM-DD\<close>, its regular expressions are the patterns without
  metacharacters (a case-insensitive substring search), an e-mail address is a string
  with an \<open>@\<close>, an object id is valid when it has 24 hexadecimal digits, and hashes
  and tokens are transparent stand-ins.
\<close>

definition pad :: "nat \<Rightarrow> string \<Rightarrow> string" where
  "pad n s = replicate (n - length s) (CHR ''0'') @ s"

definition civil_from_days :: "int \<Rightarrow> int \<times> int \<times> int" where
  "civil_from_days z0 =
     (let z = z0 + 719468;
          era = z div 146097;
          doe = z mod 146097;
          yoe = (doe - doe div 1460 + doe div 36524 - doe div 146096) div 365;
          doy = doe - (365 * yoe + yoe div 4 - yoe div 100);
          mp = (5 * doy + 2) div 153;
          dd = doy - (153 * mp + 2) div 5 + 1;
          m = (if mp < 10 then mp + 3 else mp - 9);
          y = yoe + era * 400 + (if m \<le> 2 then 1 else 0)
      in (y, m, dd))"

definition days_from_civil :: "int \<Rightarrow> int \<Rightarrow> int \<Rightarrow> int" where
  "days_from_civil y0 m dd =
     (let y = (if m \<le> 2 then y0 - 1 else y0);
          era = y div 400;
          yoe = y mod 400;
          doy = (153 * (if m > 2 then m - 3 else m + 9) + 2) div 5 + dd - 1;
          doe = yoe * 365 + yoe div 4 - yoe div 100 + doy
      in era * 146097 + doe - 719468)"

definition sample_toISOString :: "int \<Rightarrow> string" where
  "sample_toISOString ms =
     (let r = ms mod 86400000;
          (y, m, dd) = civil_from_days (ms div 86400000)
      in pad 4 (showNat (nat y)) @ ''-'' @ pad 2 (showNat (nat m)) @ ''-'' @
         pad 2 (showNat (nat dd)) @ ''T'' @ pad 2 (showNat (nat (r div 3600000))) @ '':'' @
         pad 2 (showNat (nat (r mod 3600000 div 60000))) @ '':'' @
         pad 2 (showNat (nat (r mod 60000 div 1000))) @ ''.'' @
         pad 3 (showNat (nat (r mod 1000))) @ ''Z'')"

definition readNat :: "string \<Rightarrow> int option" where
  "readNat s =
     (if s \<noteq> [] \<and> list_all (\<lambda>c. 48 \<le> (of_char c :: nat) \<and> (of_char c :: nat) \<le> 57) s
      then Some (foldl (\<lambda>a c. 10 * a + (int (of_char c) - 48)) 0 s) else None)"

definition readDay :: "string \<Rightarrow> int option" where
  "readDay s =
     (if length s = 10 \<and> s ! 4 = CHR ''-'' \<and> s ! 7 = CHR ''-''
      then (case (readNat (take 4 s), readNat (take 2 (drop 5 s)), readNat (drop 8 s)) of
              (Some y, Some m, Some dd) \<Rightarrow>
                if 1 \<le> m \<and> m \<le> 12 \<and> 1 \<le> dd \<and> dd \<le> 31
                then Some (days_from_civil y m dd * 86400000) else None
            | _ \<Rightarrow> None)
      else None)"

definition readTime :: "string \<Rightarrow> int option" where
  "readTime s =
     (if length s = 14 \<and> s ! 0 = CHR ''T'' \<and> s ! 3 = CHR '':'' \<and> s ! 6 = CHR '':'' \<and>
         s ! 9 = CHR ''.'' \<and> s ! 13 = CHR ''Z''
      then (case (readNat (take 2 (drop 1 s)), readNat (take 2 (drop 4 s)),
                  readNat (take 2 (drop 7 s)), readNat (take 3 (drop 10 s))) of
              (Some h, Some mi, Some se, Some ms) \<Rightarrow>
                if h \<le> 23 \<and> mi \<le> 59 \<and> se \<le> 59
                then Some (h * 3600000 + mi * 60000 + se * 1000 + ms) else None
            | _ \<Rightarrow> None)
      else None)"

definition sample_parseDate :: "string \<Rightarrow> int option" where
  "sample_parseDate s =
     (if length s = 10 then readDay s
      else (case (readDay (take 10 s), readTime (drop 10 s)) of
              (Some a, Some b) \<Rightarrow> Some (a + b)
            | _ \<Rightarrow> None))"

primrec contains :: "string \<Rightarrow> string \<Rightarrow> bool" where
  "contains p [] = (p = [])"
| "contains p (c # cs) = (take (length p) (c # cs) = p \<or> contains p cs)"

definition rt0 :: runtime where
  "rt0 = \<lparr>now = 1767225600000,
           toISOString = sample_toISOString,
           parseDate = sample_parseDate,
           regexMatchI = (\<lambda>p s. contains (toLowerCase p) (toLowerCase s)),
           emailPattern_test = (\<lambda>s. contains ''@'' s),
           ObjectId_isValid = isMongoId,
           bcrypt_hash = (\<lambda>p. ''$2a$12$'' @ rev p),
           bcrypt_compare = (\<lambda>p h. h = ''$2a$12$'' @ rev p),
           jwt_sign = (\<lambda>i. ''token.'' @ i),
           jwt_verify = (\<lambda>t. if take 6 t = ''token.'' then JwtPayload (drop 6 t)
                              else JsonWebTokenError)\<rparr>"

definition alice :: user where
  "alice = \<lparr>u_id = ''aaaaaaaaaaaaaaaaaaaaaaaa'', email = ''alice@example.com'',
             password = None, role = ADMIN, firstName = ''Alice'', lastName = ''Adams'',
             u_createdAt = 1750000000000, u_updatedAt = 1750000000000\<rparr>"

definition bob :: user where
  "bob = \<lparr>u_id = ''bbbbbbbbbbbbbbbbbbbbbbbb'', email = ''bob@example.com'',
           password = None, role = MEMBER, firstName = ''Bob'', lastName = ''Brown'',
           u_createdAt = 1750000000001, u_updatedAt = 1750000000001\<rparr>"

definition carol :: user where
  "carol = \<lparr>u_id = ''cccccccccccccccccccccccc'', email = ''carol@example.com'',
             password = None, role = MEMBER, firstName = ''Carol'', lastName = ''Clark'',
             u_createdAt = 1750000000002, u_updatedAt = 1750000000002\<rparr>"

definition dave :: user where
  "dave = \<lparr>u_id = ''dddddddddddddddddddddddd'', email = ''dave@example.com'',
            password = None, role = MEMBER, firstName = ''Dave'', lastName = ''Dunn'',
            u_createdAt = 1750000000003, u_updatedAt = 1750000000003\<rparr>"

definition stored :: "user \<Rightarrow> string \<Rightarrow> user" where
  "stored u pw = u\<lparr>password := Some (bcrypt_hash rt0 pw)\<rparr>"

definition task1 :: task where
  "task1 = \<lparr>t_id = ''111111111111111111111111'', title = ''Write report'',
             description = None, status = TODO, priority = MEDIUM,
             dueDate = Date 1764547200000, tags = [''work''],
             assignee = u_id bob, createdBy = u_id alice,
             createdAt = 1760000000000, updatedAt = 1760000000000\<rparr>"

definition task2 :: task where
  "task2 = \<lparr>t_id = ''222222222222222222222222'', title = ''Plan trip'',
             description = Some ''Summer'', status = DONE, priority = LOW,
             dueDate = Absent, tags = [],
             assignee = u_id carol, createdBy = u_id alice,
             createdAt = 1760000000001, updatedAt = 1760000000001\<rparr>"

definition db0 :: db where
  "db0 = \<lparr>users = [stored alice ''alice-secret'', stored bob ''bob-secret'',
                    stored carol ''carol-secret'', stored dave ''dave-secret''],
           tasks = [task1, task2], logs = []\<rparr>"

text \<open>The sample store with one more task, due on 1 March 2026, after the sample clock.\<close>

definition task3 :: task where
  "task3 = \<lparr>t_id = ''444444444444444444444444'', title = ''Book venue'',
             description = None, status = TODO, priority = HIGH,
             dueDate = Date 1772323200000, tags = [''events''],
             assignee = u_id bob, createdBy = u_id alice,
             createdAt = 1760000000002, updatedAt = 1760000000002\<rparr>"

definition db1 :: db where
  "db1 = db0\<lparr>tasks := tasks db0 @ [task3]\<rparr>"

text \<open>A query that names no filter but, possibly, paging and sorting.\<close>

definition unfiltered :: "TaskQuery \<Rightarrow> bool" where
  "unfiltered q =
     (\<not> truthy (q_assignee q) \<and> \<not> truthy (q_search q) \<and> q_status q = None \<and>
      q_priority q = None \<and> q_tags q = None \<and> q_dueDateFrom q = None \<and> q_dueDateTo q = None)"

definition emptyQuery :: TaskQuery where
  "emptyQuery = \<lparr>q_search = None, q_status = None, q_priority = None, q_assignee = None,
     q_tags = None, q_dueDateFrom = None, q_dueDateTo = None, q_page = None,
     q_limit = None, q_sortBy = None, q_sortOrder = None\<rparr>"

definition emptyUpdate :: update_body where
  "emptyUpdate = \<lparr>up_title = None, up_description = None, up_status = None,
     up_priority = None, up_dueDate = NotGiven, up_tags = None, up_assignee = None\<rparr>"

definition emptyBulk :: bulk_updates where
  "emptyBulk = \<lparr>b_status = None, b_priority = None, b_assignee = None, b_tags = None\<rparr>"

section \<open>Properties\<close>

text \<open>The sample run time prints and reads dates as the JavaScript run time does.\<close>

lemma sample_dates:
  "sample_toISOString 0 = ''1970-01-01T00:00:00.000Z'' \<and>
   sample_toISOString 1700000000000 = ''2023-11-14T22:13:20.000Z'' \<and>
   sample_parseDate ''2023-11-14T22:13:20.000Z'' = Some 1700000000000 \<and>
   sample_parseDate ''2026-01-01'' = Some (now rt0) \<and>
   sample_parseDate ''tomorrow'' = None"
  by code_simp

lemma Math_ceil_div_ceiling:
  "Math_ceil_div a b = \<lceil>real_of_int a / real_of_int b\<rceil>"
  by (simp add: Math_ceil_div_def ceiling_divide_eq_div)

lemma set_sortTasks: "set (sortTasks f o' ts) = set ts"
  by (cases f) (auto simp: sortTasks_def)

lemma length_sortTasks: "length (sortTasks f o' ts) = length ts"
  by (cases f) (auto simp: sortTasks_def)

lemma taskFilter_assignee:
  "f_assignee (taskFilter u q) =
     (if role u = MEMBER then Some (u_id u)
      else if truthy (q_assignee q) then q_assignee q else None)"
  by (simp add: taskFilter_def)

lemma matchesFilter_assignee:
  "matchesFilter rt f t \<Longrightarrow> f_assignee f = Some a \<Longrightarrow> assignee t = a"
  by (simp add: matchesFilter_def)

lemma Task_find_subset: "set (Task_find rt f d) \<subseteq> set (tasks d)"
  by (auto simp: Task_find_def)

lemma doc_populate [simp]: "doc (populate d t) = t"
  by (simp add: populate_def)

lemma page_subset: "set (take n (drop k (sortTasks f o' xs))) \<subseteq> set xs"
proof -
  have "set (take n (drop k (sortTasks f o' xs))) \<subseteq> set (sortTasks f o' xs)"
    by (meson set_take_subset set_drop_subset subset_trans)
  then show ?thesis by (simp add: set_sortTasks)
qed

lemma getTasks_Some:
  "getTasks rt d (Some u) q = Inr r \<longleftrightarrow>
   r = \<lparr>r_tasks = map (populate d)
                     (take (nat (limitNumber q))
                        (drop (nat ((pageNumber q - 1) * limitNumber q))
                           (sortTasks (sortBy q) (sortOrder q) (Task_find rt (taskFilter u q) d)))),
        r_pagination = \<lparr>currentPage = pageNumber q,
           totalPages = Math_ceil_div (Task_countDocuments rt (taskFilter u q) d) (limitNumber q),
           totalItems = Task_countDocuments rt (taskFilter u q) d,
           itemsPerPage = limitNumber q,
           hasNextPage = (pageNumber q < Math_ceil_div (Task_countDocuments rt (taskFilter u q) d) (limitNumber q)),
           hasPrevPage = (pageNumber q > 1)\<rparr>\<rparr>"
  by (auto simp: getTasks_def Let_def)

lemma getTasks_docs:
  assumes "getTasks rt d (Some u) q = Inr r"
  shows "doc ` set (r_tasks r) \<subseteq> set (Task_find rt (taskFilter u q) d)"
  using assms page_subset by (simp add: getTasks_Some image_image)

text \<open>
  Claim C8. Every authenticated task-list call returns a page. Its page number is the
  requested one (default 1) raised to at least 1, its page size the requested one
  (default 10) clamped into 1 to 100, \<open>totalPages\<close> is the ceiling of
  \<open>totalItems / limit\<close>, \<open>hasNextPage\<close> says that the page is below \<open>totalPages\<close> and
  \<open>hasPrevPage\<close> that it is above 1. The page holds at most \<open>limit\<close> tasks and
  \<open>totalItems\<close> counts the tasks matching the filter.
\<close>

theorem getTasks_pagination:
  "\<exists>r. getTasks rt d (Some u) q = Inr r \<and>
     currentPage (r_pagination r) = max 1 (case q_page q of None \<Rightarrow> 1 | Some p \<Rightarrow> p) \<and>
     1 \<le> currentPage (r_pagination r) \<and>
     itemsPerPage (r_pagination r) = min 100 (max 1 (case q_limit q of None \<Rightarrow> 10 | Some l \<Rightarrow> l)) \<and>
     1 \<le> itemsPerPage (r_pagination r) \<and> itemsPerPage (r_pagination r) \<le> 100 \<and>
     totalItems (r_pagination r) = int (length (Task_find rt (taskFilter u q) d)) \<and>
     totalPages (r_pagination r) =
       \<lceil>real_of_int (totalItems (r_pagination r)) / real_of_int (itemsPerPage (r_pagination r))\<rceil> \<and>
     hasNextPage (r_pagination r) = (currentPage (r_pagination r) < totalPages (r_pagination r)) \<and>
     hasPrevPage (r_pagination r) = (currentPage (r_pagination r) > 1) \<and>
     length (r_tasks r) \<le> nat (itemsPerPage (r_pagination r))"
  by (simp add: getTasks_Some pageNumber_def limitNumber_def Task_countDocuments_def Task_find_def
      Math_ceil_div_def ceiling_divide_eq_div)

lemma taskFilter_unfiltered:
  "role u = ADMIN \<Longrightarrow> unfiltered q \<Longrightarrow> taskFilter u q = empty_filter"
  by (simp add: taskFilter_def unfiltered_def empty_filter_def)

lemma matchesFilter_empty [simp]: "matchesFilter rt empty_filter t"
  by (simp add: matchesFilter_def empty_filter_def)

lemma Task_find_empty [simp]: "Task_find rt empty_filter d = tasks d"
  by (simp add: Task_find_def)

lemma on_some_page:
  assumes "t \<in> set xs" and "1 \<le> (L::int)"
  shows "\<exists>p\<ge>1. t \<in> set (take (nat L) (drop (nat ((p - 1) * L)) xs))"
proof -
  from assms(1) obtain i where i: "i < length xs" "xs ! i = t"
    by (auto simp: in_set_conv_nth)
  define n where "n = nat L"
  have n: "0 < n" "int n = L" using assms(2) by (simp_all add: n_def)
  define k where "k = (i div n) * n"
  define p where "p = int (i div n) + 1"
  have sk: "nat ((p - 1) * L) = k"
    unfolding p_def k_def n(2)[symmetric] by (simp add: nat_mult_distrib)
  have le: "k \<le> i" by (simp add: k_def)
  have "i - k = i mod n" by (simp add: k_def minus_div_mult_eq_mod)
  then have lt: "i - k < n" using n(1) by simp
  have "drop k xs ! (i - k) = xs ! i"
    using le i(1) by simp
  then have "take n (drop k xs) ! (i - k) = t"
    using lt i(2) by simp
  moreover have "i - k < length (take n (drop k xs))"
    using lt le i(1) by simp
  ultimately have "t \<in> set (take n (drop k xs))"
    using nth_mem by metis
  then have "t \<in> set (take (nat L) (drop (nat ((p - 1) * L)) xs))"
    by (simp add: sk n_def)
  moreover have "p \<ge> 1" by (simp add: p_def)
  ultimately show ?thesis by blast
qed

theorem getTasks_pagination_witness:
  "\<exists>r. getTasks rt0 db0 (Some alice) (emptyQuery\<lparr>q_page := Some (-3), q_limit := Some 500\<rparr>) = Inr r \<and>
     currentPage (r_pagination r) = 1 \<and> itemsPerPage (r_pagination r) = 100 \<and>
     totalItems (r_pagination r) = 2 \<and> totalPages (r_pagination r) = 1 \<and>
     \<not> hasNextPage (r_pagination r) \<and> \<not> hasPrevPage (r_pagination r)"
proof -
  let ?q = "emptyQuery\<lparr>q_page := Some (-3), q_limit := Some 500\<rparr>"
  have f: "taskFilter alice ?q = empty_filter"
    by (simp add: taskFilter_unfiltered alice_def unfiltered_def emptyQuery_def)
  have n: "length (tasks db0) = 2" by (simp add: db0_def)
  from getTasks_pagination[of rt0 db0 alice ?q] obtain r where
    r: "getTasks rt0 db0 (Some alice) ?q = Inr r"
      "currentPage (r_pagination r) = max 1 (case q_page ?q of None \<Rightarrow> 1 | Some p \<Rightarrow> p)"
      "itemsPerPage (r_pagination r) = min 100 (max 1 (case q_limit ?q of None \<Rightarrow> 10 | Some l \<Rightarrow> l))"
      "totalItems (r_pagination r) = int (length (Task_find rt0 (taskFilter alice ?q) db0))"
      "totalPages (r_pagination r) =
         \<lceil>real_of_int (totalItems (r_pagination r)) / real_of_int (itemsPerPage (r_pagination r))\<rceil>"
      "hasNextPage (r_pagination r) = (currentPage (r_pagination r) < totalPages (r_pagination r))"
      "hasPrevPage (r_pagination r) = (currentPage (r_pagination r) > 1)"
    by blast
  have "currentPage (r_pagination r) = 1" using r(2) by simp
  moreover have "itemsPerPage (r_pagination r) = 100" using r(3) by simp
  moreover have t: "totalItems (r_pagination r) = 2" using r(4) f n by simp
  moreover have "\<lceil>real_of_int 2 / real_of_int 100\<rceil> = (1::int)"
    by (simp only: ceiling_divide_eq_div)
  then have "totalPages (r_pagination r) = 1"
    using r(5) t \<open>itemsPerPage (r_pagination r) = 100\<close> by simp
  ultimately show ?thesis using r(1,6,7) by auto
qed

text \<open>
  Claim C1. For a caller with role member the effective filter of the task list has
  \<open>assignee = caller.id\<close>, whatever assignee the query names, and every task of the
  returned page has the caller as its assignee. For a caller with role admin the filter
  takes the requested assignee when one is named (then every task of the page has that
  assignee) and no assignee otherwise; with no filter at all the count is that of all
  stored tasks and every stored task is on some page.
\<close>

theorem getTasks_visibility:
  "\<exists>r. getTasks rt d (Some u) q = Inr r \<and>
     (role u = MEMBER \<longrightarrow>
        f_assignee (taskFilter u q) = Some (u_id u) \<and>
        list_all (\<lambda>pt. assignee (doc pt) = u_id u) (r_tasks r)) \<and>
     (role u = ADMIN \<longrightarrow>
        f_assignee (taskFilter u q) = (if truthy (q_assignee q) then q_assignee q else None) \<and>
        (\<forall>a. a \<noteq> [] \<and> q_assignee q = Some a \<longrightarrow>
           list_all (\<lambda>pt. assignee (doc pt) = a) (r_tasks r)) \<and>
        (unfiltered q \<longrightarrow>
           totalItems (r_pagination r) = int (length (tasks d)) \<and>
           (\<forall>t \<in> set (tasks d). \<exists>p r'. getTasks rt d (Some u) (q\<lparr>q_page := Some p\<rparr>) = Inr r' \<and>
               t \<in> doc ` set (r_tasks r'))))"
proof -
  obtain r where r: "getTasks rt d (Some u) q = Inr r"
    by (simp add: getTasks_Some)
  have all: "list_all (\<lambda>pt. assignee (doc pt) = a) (r_tasks r)"
    if "f_assignee (taskFilter u q) = Some a" for a
  proof -
    have "assignee (doc pt) = a" if "pt \<in> set (r_tasks r)" for pt
    proof -
      have "doc pt \<in> set (Task_find rt (taskFilter u q) d)"
        using getTasks_docs[OF r] that by blast
      then have "matchesFilter rt (taskFilter u q) (doc pt)"
        by (simp add: Task_find_def)
      then show ?thesis using \<open>f_assignee (taskFilter u q) = Some a\<close>
        by (rule matchesFilter_assignee)
    qed
    then show ?thesis by (simp add: list_all_iff)
  qed
  have member: "f_assignee (taskFilter u q) = Some (u_id u) \<and>
        list_all (\<lambda>pt. assignee (doc pt) = u_id u) (r_tasks r)" if "role u = MEMBER"
    using that all by (simp add: taskFilter_assignee)
  have admin1: "f_assignee (taskFilter u q) = (if truthy (q_assignee q) then q_assignee q else None)"
    if "role u = ADMIN"
    using that by (simp add: taskFilter_assignee)
  have admin2: "list_all (\<lambda>pt. assignee (doc pt) = a) (r_tasks r)"
    if "role u = ADMIN" "a \<noteq> []" "q_assignee q = Some a" for a
    using that all by (simp add: taskFilter_assignee)
  have admin3: "totalItems (r_pagination r) = int (length (tasks d))"
    if "role u = ADMIN" "unfiltered q"
    using r taskFilter_unfiltered[OF that]
    by (simp add: getTasks_Some Task_countDocuments_def)
  have admin4: "\<exists>p r'. getTasks rt d (Some u) (q\<lparr>q_page := Some p\<rparr>) = Inr r' \<and>
               t \<in> doc ` set (r_tasks r')"
    if "role u = ADMIN" "unfiltered q" "t \<in> set (tasks d)" for t
  proof -
    have l1: "1 \<le> limitNumber q" by (simp add: limitNumber_def)
    have "t \<in> set (sortTasks (sortBy q) (sortOrder q) (tasks d))"
      using that(3) by (simp add: set_sortTasks)
    from on_some_page[OF this l1] obtain p where p: "p \<ge> 1"
      "t \<in> set (take (nat (limitNumber q)) (drop (nat ((p - 1) * limitNumber q))
             (sortTasks (sortBy q) (sortOrder q) (tasks d))))"
      by auto
    let ?q = "q\<lparr>q_page := Some p\<rparr>"
    have eqs: "pageNumber ?q = p" "limitNumber ?q = limitNumber q" "sortBy ?q = sortBy q"
      "sortOrder ?q = sortOrder q"
      using p(1) by (simp_all add: pageNumber_def limitNumber_def sortBy_def sortOrder_def)
    have "unfiltered ?q" using that(2) by (simp add: unfiltered_def)
    note tf = taskFilter_unfiltered[OF that(1) this]
    obtain r' where r': "getTasks rt d (Some u) ?q = Inr r'"
      by (simp add: getTasks_Some)
    then have "doc ` set (r_tasks r') = set (take (nat (limitNumber q)) (drop (nat ((p - 1) * limitNumber q))
             (sortTasks (sortBy q) (sortOrder q) (tasks d))))"
      by (simp add: getTasks_Some eqs tf image_image)
    then show ?thesis using p(2) r' by blast
  qed
  show ?thesis
  proof (intro exI[of _ r] conjI impI allI ballI)
    show "getTasks rt d (Some u) q = Inr r" by (rule r)
  qed (use member admin1 admin2 admin3 admin4 in \<open>auto\<close>)
qed

theorem getTasks_visibility_witness:
  "role bob = MEMBER \<and> role alice = ADMIN \<and> u_id carol \<noteq> [] \<and>
   (\<exists>r. getTasks rt0 db0 (Some bob) (emptyQuery\<lparr>q_assignee := Some (u_id carol)\<rparr>) = Inr r \<and>
        f_assignee (taskFilter bob (emptyQuery\<lparr>q_assignee := Some (u_id carol)\<rparr>)) = Some (u_id bob) \<and>
        list_all (\<lambda>pt. assignee (doc pt) = u_id bob) (r_tasks r)) \<and>
   (\<exists>r. getTasks rt0 db0 (Some alice) (emptyQuery\<lparr>q_assignee := Some (u_id carol)\<rparr>) = Inr r \<and>
        list_all (\<lambda>pt. assignee (doc pt) = u_id carol) (r_tasks r)) \<and>
   unfiltered emptyQuery \<and>
   (\<exists>r. getTasks rt0 db0 (Some alice) emptyQuery = Inr r \<and>
        totalItems (r_pagination r) = int (length (tasks db0))) \<and>
   task2 \<in> set (tasks db0) \<and>
   (\<exists>p r'. getTasks rt0 db0 (Some alice) (emptyQuery\<lparr>q_page := Some p\<rparr>) = Inr r' \<and>
        task2 \<in> doc ` set (r_tasks r'))"
proof -
  let ?q = "emptyQuery\<lparr>q_assignee := Some (u_id carol)\<rparr>"
  have m: "role bob = MEMBER" by (simp add: bob_def)
  have a: "role alice = ADMIN" by (simp add: alice_def)
  have c: "u_id carol \<noteq> []" by (simp add: carol_def)
  have qa: "q_assignee ?q = Some (u_id carol)" by simp
  have un: "unfiltered emptyQuery" by (simp add: unfiltered_def emptyQuery_def)
  have 1: "\<exists>r. getTasks rt0 db0 (Some bob) ?q = Inr r \<and>
        f_assignee (taskFilter bob ?q) = Some (u_id bob) \<and>
        list_all (\<lambda>pt. assignee (doc pt) = u_id bob) (r_tasks r)"
    using getTasks_visibility[of rt0 db0 bob ?q] m by blast
  have 2: "\<exists>r. getTasks rt0 db0 (Some alice) ?q = Inr r \<and>
        list_all (\<lambda>pt. assignee (doc pt) = u_id carol) (r_tasks r)"
    using getTasks_visibility[of rt0 db0 alice ?q] a c qa by blast
  have 3: "\<exists>r. getTasks rt0 db0 (Some alice) emptyQuery = Inr r \<and>
        totalItems (r_pagination r) = int (length (tasks db0))"
    using getTasks_visibility[of rt0 db0 alice emptyQuery] a un by blast
  have t2: "task2 \<in> set (tasks db0)" by (simp add: db0_def)
  have "\<forall>t \<in> set (tasks db0). \<exists>p r'.
      getTasks rt0 db0 (Some alice) (emptyQuery\<lparr>q_page := Some p\<rparr>) = Inr r' \<and>
      t \<in> doc ` set (r_tasks r')"
    using getTasks_visibility[of rt0 db0 alice emptyQuery] a un by blast
  then have 4: "\<exists>p r'. getTasks rt0 db0 (Some alice) (emptyQuery\<lparr>q_page := Some p\<rparr>) = Inr r' \<and>
      task2 \<in> doc ` set (r_tasks r')"
    using t2 by blast
  show ?thesis using m a c un 1 2 3 t2 4 by blast
qed

lemma failsWith_403_AppError [simp]: "failsWith c (Inl (AppError m c')) = (c' = c)"
  by (simp add: failsWith_def)

lemma failsWith_Inr [simp]: "\<not> failsWith c (Inr x)"
  by (simp add: failsWith_def)

lemma failsWith_other [simp]: "failsWith c (Inl (ValidationError m)) = (c = 400)"
  "failsWith c (Inl CastError) = (c = 400)" "failsWith c (Inl (DuplicateKey f)) = (c = 400)"
  "failsWith c (Inl (OtherError m)) = (c = 500)"
  by (auto simp: failsWith_def)

lemma assigneeChange_403: "\<not> failsWith 403 (Inl e) \<or> assigneeChange rt d t upd \<noteq> Inl e"
  by (auto simp: assigneeChange_def split: option.splits if_splits)

lemma applyUpdates_403: "applyUpdates rt upd t = Inl e \<Longrightarrow> \<not> failsWith 403 (Inl e)"
  by (auto simp: applyUpdates_def Let_def split: if_splits)

lemma updateTask_403:
  assumes "Task_findById d i = Some t"
  shows "failsWith 403 (fst (updateTask rt d (Some u) i upd)) \<longleftrightarrow>
           role u = MEMBER \<and> assignee t \<noteq> u_id u"
proof (cases "role u = MEMBER \<and> assignee t \<noteq> u_id u")
  case True
  then show ?thesis using assms by (simp add: updateTask_def)
next
  case False
  show ?thesis
  proof (cases "assigneeChange rt d t upd")
    case (Inl e)
    then have "\<not> failsWith 403 (Inl e)" using assigneeChange_403[of e rt d t upd] by simp
    then show ?thesis using assms False Inl by (auto simp: updateTask_def)
  next
    case (Inr ach)
    show ?thesis
    proof (cases "applyUpdates rt upd t")
      case (Inl e)
      then show ?thesis using assms False Inr applyUpdates_403[OF Inl]
        by (auto simp: updateTask_def)
    next
      case (Inr t')
      then show ?thesis using assms False \<open>assigneeChange rt d t upd = Inr ach\<close>
        by (auto simp: updateTask_def Let_def)
    qed
  qed
qed

lemma updateTask_403_unchanged:
  "failsWith 403 (fst (updateTask rt d req_user i upd)) \<Longrightarrow> snd (updateTask rt d req_user i upd) = d"
  by (auto simp: updateTask_def Let_def split: option.splits sum.splits if_splits)

lemma updateTask_fail_unchanged:
  "fst (updateTask rt d req_user i upd) = Inl e \<Longrightarrow> snd (updateTask rt d req_user i upd) = d"
  by (auto simp: updateTask_def Let_def split: option.splits sum.splits if_splits)

lemma deleteTask_403:
  assumes "Task_findById d i = Some t"
  shows "failsWith 403 (fst (deleteTask rt d (Some u) i)) \<longleftrightarrow>
           role u = MEMBER \<and> assignee t \<noteq> u_id u"
  using assms by (simp add: deleteTask_def Let_def)

lemma deleteTask_fail_unchanged:
  "fst (deleteTask rt d req_user i) = Inl e \<Longrightarrow> snd (deleteTask rt d req_user i) = d"
  by (auto simp: deleteTask_def Let_def split: option.splits if_splits)

lemma deleteTask_allowed:
  assumes "Task_findById d i = Some t" "role u = ADMIN \<or> assignee t = u_id u"
  shows "fst (deleteTask rt d (Some u) i) = Inr ()"
  using assms by (auto simp: deleteTask_def Let_def)

text \<open>
  Claim C2. For an existing task and a caller with role member, \<open>updateTask\<close> and
  \<open>deleteTask\<close> fail with status 403 exactly when the caller is not the assignee of the
  task; a call that fails with 403 leaves the store (users, tasks and activity log) as
  it was. A caller with role admin never gets a 403, and an admin's delete of an
  existing task succeeds.
\<close>

theorem mutation_authorization:
  assumes "Task_findById d i = Some t"
  shows "(role u = MEMBER \<longrightarrow>
            (failsWith 403 (fst (updateTask rt d (Some u) i upd)) \<longleftrightarrow> assignee t \<noteq> u_id u) \<and>
            (failsWith 403 (fst (deleteTask rt d (Some u) i)) \<longleftrightarrow> assignee t \<noteq> u_id u)) \<and>
         (failsWith 403 (fst (updateTask rt d (Some u) i upd)) \<longrightarrow>
            snd (updateTask rt d (Some u) i upd) = d) \<and>
         (failsWith 403 (fst (deleteTask rt d (Some u) i)) \<longrightarrow>
            snd (deleteTask rt d (Some u) i) = d) \<and>
         (role u = ADMIN \<longrightarrow>
            \<not> failsWith 403 (fst (updateTask rt d (Some u) i upd)) \<and>
            fst (deleteTask rt d (Some u) i) = Inr ())"
proof -
  have del_unch: "snd (deleteTask rt d (Some u) i) = d"
    if "failsWith 403 (fst (deleteTask rt d (Some u) i))"
  proof -
    from that obtain e where "fst (deleteTask rt d (Some u) i) = Inl e"
      by (cases "fst (deleteTask rt d (Some u) i)") (auto simp: failsWith_def)
    then show ?thesis by (rule deleteTask_fail_unchanged)
  qed
  show ?thesis
    using updateTask_403[OF assms, of rt u upd] deleteTask_403[OF assms, of rt u]
      updateTask_403_unchanged[of rt d "Some u" i upd] del_unch
      deleteTask_allowed[OF assms, of u rt]
    by auto
qed

lemma db0_task1: "Task_findById db0 (t_id task1) = Some task1"
  by (simp add: Task_findById_def db0_def task1_def)

lemma db0_task2: "Task_findById db0 (t_id task2) = Some task2"
  by (simp add: Task_findById_def db0_def task1_def task2_def)

theorem mutation_authorization_witness:
  "Task_findById db0 (t_id task2) = Some task2 \<and>
   role bob = MEMBER \<and> assignee task2 \<noteq> u_id bob \<and>
   failsWith 403 (fst (updateTask rt0 db0 (Some bob) (t_id task2) emptyUpdate)) \<and>
   snd (updateTask rt0 db0 (Some bob) (t_id task2) emptyUpdate) = db0 \<and>
   failsWith 403 (fst (deleteTask rt0 db0 (Some bob) (t_id task2))) \<and>
   snd (deleteTask rt0 db0 (Some bob) (t_id task2)) = db0 \<and>
   role carol = MEMBER \<and> assignee task2 = u_id carol \<and>
   \<not> failsWith 403 (fst (updateTask rt0 db0 (Some carol) (t_id task2) emptyUpdate)) \<and>
   \<not> failsWith 403 (fst (deleteTask rt0 db0 (Some carol) (t_id task2))) \<and>
   role alice = ADMIN \<and>
   \<not> failsWith 403 (fst (updateTask rt0 db0 (Some alice) (t_id task2) emptyUpdate)) \<and>
   fst (deleteTask rt0 db0 (Some alice) (t_id task2)) = Inr ()"
proof -
  have b: "role bob = MEMBER" "assignee task2 \<noteq> u_id bob"
    by (simp_all add: bob_def task2_def carol_def)
  have c: "role carol = MEMBER" "assignee task2 = u_id carol"
    by (simp_all add: task2_def carol_def)
  have a: "role alice = ADMIN" by (simp add: alice_def)
  show ?thesis
    using mutation_authorization[OF db0_task2, of bob rt0 emptyUpdate]
      mutation_authorization[OF db0_task2, of carol rt0 emptyUpdate]
      mutation_authorization[OF db0_task2, of alice rt0 emptyUpdate]
      db0_task2 a b c
    by simp
qed

lemma TaskStatus_str_inj [simp]: "TaskStatus_str a = TaskStatus_str b \<longleftrightarrow> a = b"
  by (cases a; cases b) simp_all

lemma TaskPriority_str_inj [simp]: "TaskPriority_str a = TaskPriority_str b \<longleftrightarrow> a = b"
  by (cases a; cases b) simp_all

lemma map_JString_inj [simp]: "map JString xs = map JString ys \<longleftrightarrow> xs = ys"
  by (simp add: inj_map_eq_map inj_on_def)

lemma json_differs:
  assumes "f \<noteq> F_assignee"
  shows "(newValue upd f \<noteq> JUndefined \<and> newValue upd f \<noteq> originalValue rt t f) =
           (\<not> sentAsStored rt t upd f)"
  using assms
  by (cases f) (auto split: option.splits date_param.splits date_field.splits)

lemma field_name_inj [simp]: "field_name a = field_name b \<longleftrightarrow> a = b"
  by (cases a; cases b) simp_all

lemma assignee_not_diffField [simp]: "F_assignee \<notin> set diffFields"
  by (simp add: diffFields_def)

lemma diffFields_all: "f \<in> set diffFields \<longleftrightarrow> f \<noteq> F_assignee"
  by (cases f) (simp_all add: diffFields_def)

lemma distinct_diffFields [simp]: "distinct diffFields"
  by (simp add: diffFields_def)

lemma concat_if_fst:
  "map fst (concat (map (\<lambda>f. if P f then [(g f, v f)] else []) fs)) = map g (filter P fs)"
  by (induction fs) simp_all

lemma concat_if_map_of:
  "inj g \<Longrightarrow> map_of (concat (map (\<lambda>f. if P f then [(g f, v f)] else []) fs)) (g f) =
     (if f \<in> set fs \<and> P f then Some (v f) else None)"
  by (induction fs) (auto simp: inj_def)

lemma inj_field_name: "inj field_name"
  by (simp add: inj_def)

lemma fieldChanges_fst:
  "map fst (fieldChanges rt t upd) =
     map field_name (filter (\<lambda>f. \<not> sentAsStored rt t upd f) diffFields)"
proof -
  have "filter (\<lambda>f. newValue upd f \<noteq> JUndefined \<and> newValue upd f \<noteq> originalValue rt t f) diffFields
      = filter (\<lambda>f. \<not> sentAsStored rt t upd f) diffFields"
    by (rule filter_cong) (simp_all add: json_differs diffFields_all)
  then show ?thesis
    unfolding fieldChanges_def by (simp add: concat_if_fst)
qed

lemma fieldChanges_map_of:
  "map_of (fieldChanges rt t upd) (field_name f) =
     (if f \<noteq> F_assignee \<and> \<not> sentAsStored rt t upd f
      then Some (fromTo (originalValue rt t f) (newValue upd f)) else None)"
  unfolding fieldChanges_def using json_differs[of f upd rt t]
  by (auto simp: concat_if_map_of[OF inj_field_name] diffFields_all)

lemma ObjectId_cast_Nil [simp]: "ObjectId_cast [] = None"
  by (simp add: ObjectId_cast_def isMongoId_def)

lemma applyUpdates_Inr_assignee:
  "applyUpdates rt upd t = Inr t' \<Longrightarrow> up_assignee upd = Some a \<Longrightarrow> a \<noteq> []"
  by (auto simp: applyUpdates_def Let_def split: if_splits)

lemma assigneeChange_Inr:
  assumes "assigneeChange rt d t upd = Inr ach" and "applyUpdates rt upd t = Inr t'"
  shows "ach = (if \<not> sentAsStored rt t upd F_assignee
                then [(field_name F_assignee,
                       fromTo (originalValue rt t F_assignee) (newValue upd F_assignee))]
                else [])"
proof (cases "up_assignee upd")
  case None
  then show ?thesis using assms(1) by (simp add: assigneeChange_def)
next
  case (Some a)
  then have "a \<noteq> []" using assms(2) by (rule applyUpdates_Inr_assignee[rotated])
  then show ?thesis using assms(1) Some
    by (auto simp: assigneeChange_def split: option.splits if_splits)
qed

text \<open>The changes a successful update records.\<close>

lemma updateTask_Inr:
  assumes "updateTask rt d (Some u) i upd = (Inr r, d')" and "Task_findById d i = Some t"
  shows "\<exists>ach t'. assigneeChange rt d t upd = Inr ach \<and> applyUpdates rt upd t = Inr t' \<and>
           logs d' = (if ach @ fieldChanges rt t upd \<noteq> []
                      then logs d @ [updateEntry rt i (u_id u) (ach @ fieldChanges rt t upd)]
                      else logs d)"
  using assms
  by (auto simp: updateTask_def Let_def ActivityLog_create_def updateEntry_def
      split: sum.splits if_splits)

text \<open>
  A value that differs is not sent as stored: the code's comparison never misses a
  change of value.
\<close>

lemma valueDiffers_not_sentAsStored:
  assumes "storedWell rt t" and "valueDiffers rt t upd f"
  shows "\<not> sentAsStored rt t upd f"
  using assms
  by (cases f)
    (auto simp: storedWell_def split: option.splits date_param.splits date_field.splits)

lemma updateTask_changes:
  assumes ok: "updateTask rt d (Some u) i upd = (Inr r, d')"
    and found: "Task_findById d i = Some t"
  shows "\<exists>chs. logs d' = (if \<exists>f. \<not> sentAsStored rt t upd f
                 then logs d @ [updateEntry rt i (u_id u) chs] else logs d) \<and>
               distinct (map fst chs) \<and>
               fst ` set chs = field_name ` {f. \<not> sentAsStored rt t upd f} \<and>
               (\<forall>f. \<not> sentAsStored rt t upd f \<longrightarrow>
                  map_of chs (field_name f) =
                    Some (fromTo (originalValue rt t f) (newValue upd f)))"
proof -
  let ?D = "\<lambda>f. \<not> sentAsStored rt t upd f"
  from updateTask_Inr[OF ok found] obtain ach t' where
    ach: "assigneeChange rt d t upd = Inr ach" and
    app: "applyUpdates rt upd t = Inr t'" and
    lg: "logs d' = (if ach @ fieldChanges rt t upd \<noteq> []
                    then logs d @ [updateEntry rt i (u_id u) (ach @ fieldChanges rt t upd)]
                    else logs d)"
    by (elim exE conjE)
  define chs where "chs = ach @ fieldChanges rt t upd"
  note a = assigneeChange_Inr[OF ach app]
  have keys: "map fst chs = map field_name (filter ?D (F_assignee # diffFields))"
    by (simp add: chs_def a fieldChanges_fst)
  have dist: "distinct (map fst chs)"
    unfolding keys by (simp add: distinct_map inj_on_def)
  have sf: "set (filter ?D (F_assignee # diffFields)) = {f. ?D f}"
    by (auto simp: diffFields_all)
  have "fst ` set chs = set (map fst chs)" by simp
  also have "\<dots> = field_name ` set (filter ?D (F_assignee # diffFields))"
    unfolding keys by (rule set_map)
  finally have mem: "fst ` set chs = field_name ` {f. ?D f}"
    unfolding sf .
  have nonempty: "chs \<noteq> [] \<longleftrightarrow> (\<exists>f. ?D f)"
  proof -
    have "chs \<noteq> [] \<longleftrightarrow> fst ` set chs \<noteq> {}" by simp
    then show ?thesis unfolding mem by auto
  qed
  have vals: "map_of chs (field_name f) =
      Some (fromTo (originalValue rt t f) (newValue upd f))"
    if v: "?D f" for f
  proof (cases "f = F_assignee")
    case True
    then show ?thesis using v by (simp add: chs_def a)
  next
    case False
    then have "map_of chs (field_name f) = map_of (fieldChanges rt t upd) (field_name f)"
      by (simp add: chs_def a del: field_name.simps)
    then show ?thesis using v False by (simp add: fieldChanges_map_of)
  qed
  have "logs d' = (if \<exists>f. ?D f
               then logs d @ [updateEntry rt i (u_id u) chs] else logs d)"
    using lg nonempty by (simp add: chs_def)
  then show ?thesis using dist mem vals by (intro exI[of _ chs] conjI allI impI)
qed

text \<open>
  Claim C3, as the code has it. A successful update of an existing task compares the body with
  the stored task on title, description, status, priority, due date and tags, and on
  the assignee, and appends at most one activity-log entry. When at least one requested
  value differs from the stored one it appends exactly one entry; its \<open>changes\<close> maps
  every field whose value differs to \<open>{from, to}\<close>, where \<open>from\<close> is left out for a
  field that had no value, and has no key but fields that were sent otherwise than as
  stored. When every field is sent as stored (a due date as the ISO string of the stored
  date, the assignee as the text of the stored id) nothing is appended, nor is it by a
  failing update. In particular a successful update of the status from \<open>todo\<close> to
  \<open>in-progress\<close> appends one entry with
  \<open>changes.status = {from: "todo", to: "in-progress"}\<close>.
\<close>

theorem updateTask_audit:
  assumes "Task_findById d i = Some t" and "storedWell rt t"
  shows
   "(\<forall>r d'. updateTask rt d (Some u) i upd = (Inr r, d') \<longrightarrow>
       (logs d' = logs d \<or> (\<exists>chs. logs d' = logs d @ [updateEntry rt i (u_id u) chs])) \<and>
       ((\<exists>f. valueDiffers rt t upd f) \<longrightarrow>
          (\<exists>chs. logs d' = logs d @ [updateEntry rt i (u_id u) chs] \<and>
             distinct (map fst chs) \<and>
             (\<forall>f. valueDiffers rt t upd f \<longrightarrow>
                map_of chs (field_name f) =
                  Some (JObject ((if originalValue rt t f = JUndefined then []
                                  else [(''from'', originalValue rt t f)]) @
                                 [(''to'', newValue upd f)]))) \<and>
             (\<forall>k \<in> fst ` set chs. \<exists>f. k = field_name f \<and> \<not> sentAsStored rt t upd f)))) \<and>
    ((\<forall>f. sentAsStored rt t upd f) \<longrightarrow>
       logs (snd (updateTask rt d (Some u) i upd)) = logs d) \<and>
    (\<forall>r d'. status t = TODO \<and> up_status upd = Some IN_PROGRESS \<and>
       updateTask rt d (Some u) i upd = (Inr r, d') \<longrightarrow>
       (\<exists>chs. logs d' = logs d @ [updateEntry rt i (u_id u) chs] \<and>
          map_of chs ''status'' =
            Some (JObject [(''from'', JString ''todo''), (''to'', JString ''in-progress'')])))"
proof -
  note found = assms(1) and well = assms(2)
  have atmost: "logs d' = logs d \<or> (\<exists>chs. logs d' = logs d @ [updateEntry rt i (u_id u) chs])"
    if ok: "updateTask rt d (Some u) i upd = (Inr r, d')" for r d'
  proof -
    from updateTask_changes[OF ok found] obtain chs where
      "logs d' = (if \<exists>f. \<not> sentAsStored rt t upd f
                 then logs d @ [updateEntry rt i (u_id u) chs] else logs d)"
      by (elim exE conjE)
    then show ?thesis by (cases "\<exists>f. \<not> sentAsStored rt t upd f") auto
  qed
  have differs: "\<exists>chs. logs d' = logs d @ [updateEntry rt i (u_id u) chs] \<and>
             distinct (map fst chs) \<and>
             (\<forall>f. valueDiffers rt t upd f \<longrightarrow>
                map_of chs (field_name f) =
                  Some (JObject ((if originalValue rt t f = JUndefined then []
                                  else [(''from'', originalValue rt t f)]) @
                                 [(''to'', newValue upd f)]))) \<and>
             (\<forall>k \<in> fst ` set chs. \<exists>f. k = field_name f \<and> \<not> sentAsStored rt t upd f)"
    if ok: "updateTask rt d (Some u) i upd = (Inr r, d')"
      and ex: "\<exists>f. valueDiffers rt t upd f" for r d'
  proof -
    from updateTask_changes[OF ok found] obtain chs where
      lg: "logs d' = (if \<exists>f. \<not> sentAsStored rt t upd f
                 then logs d @ [updateEntry rt i (u_id u) chs] else logs d)" and
      dist: "distinct (map fst chs)" and
      mem: "fst ` set chs = field_name ` {f. \<not> sentAsStored rt t upd f}" and
      vals: "\<forall>f. \<not> sentAsStored rt t upd f \<longrightarrow>
                  map_of chs (field_name f) =
                    Some (fromTo (originalValue rt t f) (newValue upd f))"
      by (elim exE conjE)
    from ex obtain f0 where "valueDiffers rt t upd f0" ..
    then have "\<not> sentAsStored rt t upd f0"
      by (rule valueDiffers_not_sentAsStored[OF well])
    then have "\<exists>f. \<not> sentAsStored rt t upd f" ..
    then have 1: "logs d' = logs d @ [updateEntry rt i (u_id u) chs]"
      using lg by simp
    have 2: "map_of chs (field_name f) =
                  Some (JObject ((if originalValue rt t f = JUndefined then []
                                  else [(''from'', originalValue rt t f)]) @
                                 [(''to'', newValue upd f)]))"
      if "valueDiffers rt t upd f" for f
    proof -
      have "\<not> sentAsStored rt t upd f"
        using that by (rule valueDiffers_not_sentAsStored[OF well])
      then have "map_of chs (field_name f) =
          Some (fromTo (originalValue rt t f) (newValue upd f))"
        using vals by simp
      then show ?thesis by (simp only: fromTo_def)
    qed
    have 3: "\<exists>f. k = field_name f \<and> \<not> sentAsStored rt t upd f" if "k \<in> fst ` set chs" for k
      using that unfolding mem by auto
    show ?thesis using 1 dist 2 3 by (intro exI[of _ chs] conjI allI impI ballI)
  qed
  have same: "logs (snd (updateTask rt d (Some u) i upd)) = logs d"
    if all: "\<forall>f. sentAsStored rt t upd f"
  proof (cases "fst (updateTask rt d (Some u) i upd)")
    case (Inl e)
    then show ?thesis by (simp add: updateTask_fail_unchanged)
  next
    case (Inr r)
    then have "updateTask rt d (Some u) i upd = (Inr r, snd (updateTask rt d (Some u) i upd))"
      by (metis prod.collapse)
    from updateTask_changes[OF this found] all show ?thesis by simp
  qed
  have st: "\<exists>chs. logs d' = logs d @ [updateEntry rt i (u_id u) chs] \<and>
          map_of chs ''status'' =
            Some (JObject [(''from'', JString ''todo''), (''to'', JString ''in-progress'')])"
    if "status t = TODO" "up_status upd = Some IN_PROGRESS"
      and ok: "updateTask rt d (Some u) i upd = (Inr r, d')" for r d'
  proof -
    have v: "valueDiffers rt t upd F_status"
      using that(1,2) by simp
    then have "\<exists>f. valueDiffers rt t upd f" ..
    from differs[OF ok this] obtain chs where
      c: "logs d' = logs d @ [updateEntry rt i (u_id u) chs]"
         "\<forall>f. valueDiffers rt t upd f \<longrightarrow>
                map_of chs (field_name f) =
                  Some (JObject ((if originalValue rt t f = JUndefined then []
                                  else [(''from'', originalValue rt t f)]) @
                                 [(''to'', newValue upd f)]))"
      by (elim exE conjE)
    have "map_of chs ''status'' =
            Some (JObject [(''from'', JString ''todo''), (''to'', JString ''in-progress'')])"
      using c(2)[rule_format, OF v] that(1,2) by simp
    then show ?thesis using c(1) by (intro exI[of _ chs] conjI)
  qed
  show ?thesis
  proof (intro conjI allI impI)
    fix r d' assume "updateTask rt d (Some u) i upd = (Inr r, d')"
    then show "logs d' = logs d \<or> (\<exists>chs. logs d' = logs d @ [updateEntry rt i (u_id u) chs])"
      by (rule atmost)
  next
    fix r d' assume "updateTask rt d (Some u) i upd = (Inr r, d')"
      and "\<exists>f. valueDiffers rt t upd f"
    then show "\<exists>chs. logs d' = logs d @ [updateEntry rt i (u_id u) chs] \<and>
             distinct (map fst chs) \<and>
             (\<forall>f. valueDiffers rt t upd f \<longrightarrow>
                map_of chs (field_name f) =
                  Some (JObject ((if originalValue rt t f = JUndefined then []
                                  else [(''from'', originalValue rt t f)]) @
                                 [(''to'', newValue upd f)]))) \<and>
             (\<forall>k \<in> fst ` set chs. \<exists>f. k = field_name f \<and> \<not> sentAsStored rt t upd f)"
      by (rule differs)
  next
    assume "\<forall>f. sentAsStored rt t upd f"
    then show "logs (snd (updateTask rt d (Some u) i upd)) = logs d" by (rule same)
  next
    fix r d' assume "status t = TODO \<and> up_status upd = Some IN_PROGRESS \<and>
       updateTask rt d (Some u) i upd = (Inr r, d')"
    then have "status t = TODO" "up_status upd = Some IN_PROGRESS"
      "updateTask rt d (Some u) i upd = (Inr r, d')" by simp_all
    then show "\<exists>chs. logs d' = logs d @ [updateEntry rt i (u_id u) chs] \<and>
          map_of chs ''status'' =
            Some (JObject [(''from'', JString ''todo''), (''to'', JString ''in-progress'')])"
      by (rule st)
  qed
qed

lemma distinct_set_singleton: "distinct xs \<Longrightarrow> set xs = {a} \<Longrightarrow> xs = [a]"
proof (cases xs)
  case Nil
  assume "set xs = {a}"
  then show ?thesis using Nil by simp
next
  case (Cons x ys)
  assume d: "distinct xs" and s: "set xs = {a}"
  have "x = a" using s Cons by auto
  moreover have "set ys \<subseteq> {a}" using s Cons by auto
  moreover have "a \<notin> set ys" using d Cons \<open>x = a\<close> by simp
  ultimately have "ys = []" by (cases ys) auto
  then show ?thesis using Cons \<open>x = a\<close> by simp
qed

lemma updateTask_succeeds:
  assumes "Task_findById d i = Some t" "\<not> (role u = MEMBER \<and> assignee t \<noteq> u_id u)"
    "assigneeChange rt d t upd = Inr ach" "applyUpdates rt upd t = Inr t'"
  shows "\<exists>r d'. updateTask rt d (Some u) i upd = (Inr r, d')"
  using assms by (simp add: updateTask_def Let_def)

lemma db1_task3: "Task_findById db1 (t_id task3) = Some task3"
  by code_simp

lemma storedWell_task3: "storedWell rt0 task3"
  by code_simp

theorem updateTask_audit_witness:
  "Task_findById db1 (t_id task3) = Some task3 \<and> storedWell rt0 task3 \<and>
   status task3 = TODO \<and>
   valueDiffers rt0 task3 (emptyUpdate\<lparr>up_status := Some IN_PROGRESS\<rparr>) F_status \<and>
   (\<exists>r d' chs. updateTask rt0 db1 (Some bob) (t_id task3)
                   (emptyUpdate\<lparr>up_status := Some IN_PROGRESS\<rparr>) = (Inr r, d') \<and>
      logs d' = logs db1 @ [updateEntry rt0 (t_id task3) (u_id bob) chs] \<and>
      map fst chs = [''status''] \<and>
      map_of chs ''status'' =
        Some (JObject [(''from'', JString ''todo''), (''to'', JString ''in-progress'')])) \<and>
   (\<forall>f. sentAsStored rt0 task3
          (emptyUpdate\<lparr>up_title := Some ''Book venue'', up_status := Some TODO,
             up_dueDate := GivenString ''2026-03-01T00:00:00.000Z'',
             up_tags := Some [''events''], up_assignee := Some (u_id bob)\<rparr>) f) \<and>
   \<not> isl (fst (updateTask rt0 db1 (Some bob) (t_id task3)
          (emptyUpdate\<lparr>up_title := Some ''Book venue'', up_status := Some TODO,
             up_dueDate := GivenString ''2026-03-01T00:00:00.000Z'',
             up_tags := Some [''events''], up_assignee := Some (u_id bob)\<rparr>))) \<and>
   logs (snd (updateTask rt0 db1 (Some bob) (t_id task3)
          (emptyUpdate\<lparr>up_title := Some ''Book venue'', up_status := Some TODO,
             up_dueDate := GivenString ''2026-03-01T00:00:00.000Z'',
             up_tags := Some [''events''], up_assignee := Some (u_id bob)\<rparr>))) = logs db1"
proof -
  let ?u1 = "emptyUpdate\<lparr>up_status := Some IN_PROGRESS\<rparr>"
  let ?u2 = "emptyUpdate\<lparr>up_title := Some ''Book venue'', up_status := Some TODO,
             up_dueDate := GivenString ''2026-03-01T00:00:00.000Z'',
             up_tags := Some [''events''], up_assignee := Some (u_id bob)\<rparr>"
  have st: "status task3 = TODO" by (simp add: task3_def)
  have own: "\<not> (role bob = MEMBER \<and> assignee task3 \<noteq> u_id bob)"
    by (simp add: task3_def)
  have ac: "assigneeChange rt0 db1 task3 ?u1 = Inr []"
    by (simp add: assigneeChange_def emptyUpdate_def)
  have "\<exists>t'. applyUpdates rt0 ?u1 task3 = Inr t'"
    by (simp add: applyUpdates_def emptyUpdate_def)
  then obtain t' where "applyUpdates rt0 ?u1 task3 = Inr t'" ..
  from updateTask_succeeds[OF db1_task3 own ac this] obtain r d' where
    ok: "updateTask rt0 db1 (Some bob) (t_id task3) ?u1 = (Inr r, d')" by (elim exE)
  have v: "valueDiffers rt0 task3 ?u1 F_status"
    by (simp add: task3_def)
  then have ex: "\<exists>f. valueDiffers rt0 task3 ?u1 f" ..
  have only: "f = F_status" if "\<not> sentAsStored rt0 task3 ?u1 f" for f
    using that by (cases f) (simp_all add: emptyUpdate_def)
  note main1 = updateTask_audit[OF db1_task3 storedWell_task3, of bob ?u1]
  note main2 = updateTask_audit[OF db1_task3 storedWell_task3, of bob ?u2]
  have "\<forall>r d'. updateTask rt0 db1 (Some bob) (t_id task3) ?u1 = (Inr r, d') \<longrightarrow>
       (logs d' = logs db1 \<or>
        (\<exists>chs. logs d' = logs db1 @ [updateEntry rt0 (t_id task3) (u_id bob) chs])) \<and>
       ((\<exists>f. valueDiffers rt0 task3 ?u1 f) \<longrightarrow>
          (\<exists>chs. logs d' = logs db1 @ [updateEntry rt0 (t_id task3) (u_id bob) chs] \<and>
             distinct (map fst chs) \<and>
             (\<forall>f. valueDiffers rt0 task3 ?u1 f \<longrightarrow>
                map_of chs (field_name f) =
                  Some (JObject ((if originalValue rt0 task3 f = JUndefined then []
                                  else [(''from'', originalValue rt0 task3 f)]) @
                                 [(''to'', newValue ?u1 f)]))) \<and>
             (\<forall>k \<in> fst ` set chs. \<exists>f. k = field_name f \<and> \<not> sentAsStored rt0 task3 ?u1 f)))"
    using main1 by (elim conjE)
  from this[rule_format, OF ok] have
    "(\<exists>f. valueDiffers rt0 task3 ?u1 f) \<longrightarrow>
          (\<exists>chs. logs d' = logs db1 @ [updateEntry rt0 (t_id task3) (u_id bob) chs] \<and>
             distinct (map fst chs) \<and>
             (\<forall>f. valueDiffers rt0 task3 ?u1 f \<longrightarrow>
                map_of chs (field_name f) =
                  Some (JObject ((if originalValue rt0 task3 f = JUndefined then []
                                  else [(''from'', originalValue rt0 task3 f)]) @
                                 [(''to'', newValue ?u1 f)]))) \<and>
             (\<forall>k \<in> fst ` set chs. \<exists>f. k = field_name f \<and> \<not> sentAsStored rt0 task3 ?u1 f))"
    by (elim conjE)
  from this[rule_format, OF ex] obtain chs where
    chs: "logs d' = logs db1 @ [updateEntry rt0 (t_id task3) (u_id bob) chs]"
      "distinct (map fst chs)"
      "\<forall>f. valueDiffers rt0 task3 ?u1 f \<longrightarrow>
                map_of chs (field_name f) =
                  Some (JObject ((if originalValue rt0 task3 f = JUndefined then []
                                  else [(''from'', originalValue rt0 task3 f)]) @
                                 [(''to'', newValue ?u1 f)]))"
      "\<forall>k \<in> fst ` set chs. \<exists>f. k = field_name f \<and> \<not> sentAsStored rt0 task3 ?u1 f"
    by (elim exE conjE)
  have val: "map_of chs ''status'' =
        Some (JObject [(''from'', JString ''todo''), (''to'', JString ''in-progress'')])"
    using chs(3)[rule_format, OF v] by (simp add: task3_def)
  then have "(''status'', JObject [(''from'', JString ''todo''), (''to'', JString ''in-progress'')])
      \<in> set chs" by (rule map_of_SomeD)
  then have inn: "''status'' \<in> fst ` set chs" by force
  have key: "k = ''status''" if "k \<in> fst ` set chs" for k
  proof -
    from chs(4)[rule_format, OF that] obtain f where
      f: "k = field_name f" "\<not> sentAsStored rt0 task3 ?u1 f"
      by (elim exE conjE)
    have "f = F_status" using f(2) by (rule only)
    then show ?thesis using f(1) by (simp only: field_name.simps)
  qed
  have "fst ` set chs = {''status''}"
  proof (rule equalityI; rule subsetI)
    fix k assume "k \<in> fst ` set chs"
    then have "k = ''status''" by (rule key)
    then show "k \<in> {''status''}" by (simp only: singleton_iff)
  next
    fix k assume "k \<in> {''status''}"
    then have "k = ''status''" by (simp only: singleton_iff)
    then show "k \<in> fst ` set chs" using inn by (simp only:)
  qed
  then have "set (map fst chs) = {''status''}" by (simp only: set_map)
  then have keys: "map fst chs = [''status'']"
    using chs(2) by (rule distinct_set_singleton[rotated])
  have A: "\<exists>r d' chs. updateTask rt0 db1 (Some bob) (t_id task3) ?u1 = (Inr r, d') \<and>
      logs d' = logs db1 @ [updateEntry rt0 (t_id task3) (u_id bob) chs] \<and>
      map fst chs = [''status''] \<and>
      map_of chs ''status'' =
        Some (JObject [(''from'', JString ''todo''), (''to'', JString ''in-progress'')])"
    using ok chs(1) keys val by (intro exI conjI)
  have s1: "sentAsStored rt0 task3 ?u2 F_title" by code_simp
  have s2: "sentAsStored rt0 task3 ?u2 F_description" by code_simp
  have s3: "sentAsStored rt0 task3 ?u2 F_status" by code_simp
  have s4: "sentAsStored rt0 task3 ?u2 F_priority" by code_simp
  have s5: "sentAsStored rt0 task3 ?u2 F_dueDate" by code_simp
  have s6: "sentAsStored rt0 task3 ?u2 F_tags" by code_simp
  have s7: "sentAsStored rt0 task3 ?u2 F_assignee" by code_simp
  have same: "\<forall>f. sentAsStored rt0 task3 ?u2 f"
  proof
    fix f show "sentAsStored rt0 task3 ?u2 f"
    proof (cases f)
      case F_title show ?thesis unfolding F_title by (rule s1)
    next
      case F_description show ?thesis unfolding F_description by (rule s2)
    next
      case F_status show ?thesis unfolding F_status by (rule s3)
    next
      case F_priority show ?thesis unfolding F_priority by (rule s4)
    next
      case F_dueDate show ?thesis unfolding F_dueDate by (rule s5)
    next
      case F_tags show ?thesis unfolding F_tags by (rule s6)
    next
      case F_assignee show ?thesis unfolding F_assignee by (rule s7)
    qed
  qed
  have "(\<forall>f. sentAsStored rt0 task3 ?u2 f) \<longrightarrow>
       logs (snd (updateTask rt0 db1 (Some bob) (t_id task3) ?u2)) = logs db1"
    using main2 by (elim conjE)
  from mp[OF this same]
  have B: "logs (snd (updateTask rt0 db1 (Some bob) (t_id task3) ?u2)) = logs db1" .
  have C: "\<not> isl (fst (updateTask rt0 db1 (Some bob) (t_id task3) ?u2))"
    by code_simp
  show ?thesis using db1_task3 storedWell_task3 st v A same C B by (intro conjI)
qed

text \<open>
  Claim C3 as stated fails: a payload that is value-equal to the stored task is logged
  as a change when a value is written in another notation. The assignee of a task due
  on 2026-03-01T00:00:00.000Z sends the due date \<open>2026-03-01\<close>, the same instant: no
  requested value differs from the stored one, the update succeeds and leaves every
  stored field but \<open>updatedAt\<close> as it was, and one entry is written, with
  \<open>changes.dueDate = {from: "2026-03-01T00:00:00.000Z", to: "2026-03-01"}\<close>.
\<close>

theorem updateTask_logs_equal_dueDate:
  "Task_findById db1 (t_id task3) = Some task3 \<and>
   dueDate task3 = Date 1772323200000 \<and>
   castDate rt0 ''2026-03-01'' = Some (Date 1772323200000) \<and>
   \<not> valueDiffers rt0 task3 (emptyUpdate\<lparr>up_dueDate := GivenString ''2026-03-01''\<rparr>) F_title \<and>
   \<not> valueDiffers rt0 task3 (emptyUpdate\<lparr>up_dueDate := GivenString ''2026-03-01''\<rparr>) F_description \<and>
   \<not> valueDiffers rt0 task3 (emptyUpdate\<lparr>up_dueDate := GivenString ''2026-03-01''\<rparr>) F_status \<and>
   \<not> valueDiffers rt0 task3 (emptyUpdate\<lparr>up_dueDate := GivenString ''2026-03-01''\<rparr>) F_priority \<and>
   \<not> valueDiffers rt0 task3 (emptyUpdate\<lparr>up_dueDate := GivenString ''2026-03-01''\<rparr>) F_dueDate \<and>
   \<not> valueDiffers rt0 task3 (emptyUpdate\<lparr>up_dueDate := GivenString ''2026-03-01''\<rparr>) F_tags \<and>
   \<not> valueDiffers rt0 task3 (emptyUpdate\<lparr>up_dueDate := GivenString ''2026-03-01''\<rparr>) F_assignee \<and>
   \<not> isl (fst (updateTask rt0 db1 (Some bob) (t_id task3)
                (emptyUpdate\<lparr>up_dueDate := GivenString ''2026-03-01''\<rparr>))) \<and>
   Task_findById
     (snd (updateTask rt0 db1 (Some bob) (t_id task3)
             (emptyUpdate\<lparr>up_dueDate := GivenString ''2026-03-01''\<rparr>))) (t_id task3) =
     Some (task3\<lparr>updatedAt := now rt0\<rparr>) \<and>
   logs db1 = [] \<and>
   logs (snd (updateTask rt0 db1 (Some bob) (t_id task3)
                (emptyUpdate\<lparr>up_dueDate := GivenString ''2026-03-01''\<rparr>))) =
     [updateEntry rt0 (t_id task3) (u_id bob)
        [(''dueDate'', JObject [(''from'', JString ''2026-03-01T00:00:00.000Z''),
                                (''to'', JString ''2026-03-01'')])]]"
  by code_simp

text \<open>
  The same holds of the assignee: the id of the current assignee sent in upper-case
  digits is the same object id, the stored assignee stays as it was, and the change of
  assignee is logged.
\<close>

lemma updateTask_logs_same_assignee:
  "ObjectId_cast ''BBBBBBBBBBBBBBBBBBBBBBBB'' = Some (assignee task3) \<and>
   \<not> valueDiffers rt0 task3
       (emptyUpdate\<lparr>up_assignee := Some ''BBBBBBBBBBBBBBBBBBBBBBBB''\<rparr>) F_assignee \<and>
   Task_findById
     (snd (updateTask rt0 db1 (Some alice) (t_id task3)
             (emptyUpdate\<lparr>up_assignee := Some ''BBBBBBBBBBBBBBBBBBBBBBBB''\<rparr>))) (t_id task3) =
     Some (task3\<lparr>updatedAt := now rt0\<rparr>) \<and>
   logs (snd (updateTask rt0 db1 (Some alice) (t_id task3)
                (emptyUpdate\<lparr>up_assignee := Some ''BBBBBBBBBBBBBBBBBBBBBBBB''\<rparr>))) =
     [updateEntry rt0 (t_id task3) (u_id alice)
        [(''assignee'', JObject [(''from'', JString ''bbbbbbbbbbbbbbbbbbbbbbbb''),
                                 (''to'', JString ''BBBBBBBBBBBBBBBBBBBBBBBB'')])]]"
  by code_simp

text \<open>The entry of a field that had no value carries \<open>to\<close> only.\<close>

lemma updateTask_logs_new_description:
  "description task3 = None \<and>
   logs (snd (updateTask rt0 db1 (Some bob) (t_id task3)
                (emptyUpdate\<lparr>up_description := Some ''Hall A''\<rparr>))) =
     [updateEntry rt0 (t_id task3) (u_id bob)
        [(''description'', JObject [(''to'', JString ''Hall A'')])]]"
  by code_simp

lemma toLowerCase_char_idem [simp]: "toLowerCase_char (toLowerCase_char c) = toLowerCase_char c"
  by (simp add: toLowerCase_char_def)

lemma isWhiteSpace_toLowerCase_char [simp]:
  "isWhiteSpace (toLowerCase_char c) = isWhiteSpace c"
  by (auto simp: toLowerCase_char_def isWhiteSpace_def)

lemma toLowerCase_idem [simp]: "toLowerCase (toLowerCase s) = toLowerCase s"
  by (simp add: toLowerCase_def)

lemma toLowerCase_dropWhile:
  "toLowerCase (dropWhile isWhiteSpace s) = dropWhile isWhiteSpace (toLowerCase s)"
  by (simp add: toLowerCase_def dropWhile_map comp_def)

lemma toLowerCase_trim: "toLowerCase (trim s) = trim (toLowerCase s)"
proof -
  have r: "toLowerCase (rev xs) = rev (toLowerCase xs)" for xs
    by (simp add: toLowerCase_def rev_map)
  show ?thesis
    by (simp add: trim_def r toLowerCase_dropWhile)
qed

lemma trim_idem [simp]: "trim (trim s) = trim s"
proof -
  define a where "a = dropWhile isWhiteSpace s"
  define b where "b = dropWhile isWhiteSpace (rev a)"
  have tb: "trim s = rev b" by (simp add: trim_def a_def b_def)
  have 1: "dropWhile isWhiteSpace (rev b) = rev b"
  proof (cases "rev b = []")
    case True then show ?thesis by simp
  next
    case False
    then have "b \<noteq> []" by simp
    have "rev a = takeWhile isWhiteSpace (rev a) @ b"
      by (simp add: b_def)
    then have "a = rev b @ rev (takeWhile isWhiteSpace (rev a))"
      by (metis rev_append rev_rev_ident)
    then have "hd a = hd (rev b)" using False by (metis hd_append2)
    moreover have "a \<noteq> []" using \<open>b \<noteq> []\<close> b_def by auto
    then have "\<not> isWhiteSpace (hd a)"
      unfolding a_def by (rule hd_dropWhile)
    ultimately show ?thesis using False by (cases "rev b") simp_all
  qed
  have 2: "dropWhile isWhiteSpace b = b"
    unfolding b_def by simp
  show ?thesis
    unfolding tb by (simp add: trim_def 1 2)
qed

lemma normal_form: "toLowerCase (trim (toLowerCase s)) = trim (toLowerCase s)"
  "trim (trim (toLowerCase s)) = trim (toLowerCase s)"
  by (simp_all add: toLowerCase_trim)

lemma normalizeTags_set:
  "set (normalizeTags ts) \<subseteq> (\<lambda>tag. trim (toLowerCase tag)) ` set ts - {[]}"
  by (auto simp: normalizeTags_def Let_def dest!: set_zip_leftD)

lemma normalizeTags_distinct: "distinct (normalizeTags ts)"
proof -
  define arr where "arr = map (\<lambda>tag. trim (toLowerCase tag)) ts"
  define ps where "ps = filter (\<lambda>(tag, index). tag \<noteq> [] \<and> indexOf arr tag = int index)
                    (zip arr [0 ..< length arr])"
  have "distinct (zip arr [0 ..< length arr])" by (rule distinct_zipI2) simp
  then have d: "distinct ps" by (simp add: ps_def)
  have "inj_on fst (set ps)"
  proof (rule inj_onI)
    fix p q assume "p \<in> set ps" "q \<in> set ps" "fst p = fst q"
    then have "indexOf arr (fst p) = int (snd p)" "indexOf arr (fst q) = int (snd q)"
      by (auto simp: ps_def)
    then have "snd p = snd q" using \<open>fst p = fst q\<close> by simp
    then show "p = q" using \<open>fst p = fst q\<close> by (simp add: prod_eq_iff)
  qed
  then have "distinct (map fst ps)" using d by (simp add: distinct_map)
  then show ?thesis by (simp add: normalizeTags_def Let_def arr_def ps_def)
qed

lemma normalizeTags_length: "length (normalizeTags ts) \<le> length ts"
proof -
  have "length (filter P (zip (map f ts) [0 ..< length (map f ts)])) \<le> length ts" for P f
    by (rule order_trans[OF length_filter_le]) simp
  then show ?thesis by (simp add: normalizeTags_def Let_def)
qed

lemma normalizeTags_normalized:
  "length ts \<le> 10 \<Longrightarrow> tagsNormalized (normalizeTags ts)"
  unfolding tagsNormalized_def
  using normalizeTags_set[of ts] normalizeTags_distinct[of ts] normalizeTags_length[of ts]
  by (auto simp: list_all_iff normal_form)

lemma Task_create_Inr:
  assumes "Task_create rt nid b creator d = (Inr t, d')"
  shows "tasks d' = tasks d @ [t] \<and> users d' = users d \<and> logs d' = logs d \<and>
         tags t = normalizeTags (case c_tags b of None \<Rightarrow> [] | Some ts \<Rightarrow> ts) \<and>
         length (case c_tags b of None \<Rightarrow> [] | Some ts \<Rightarrow> ts) \<le> 10 \<and>
         status t = (case c_status b of None \<Rightarrow> TODO | Some s \<Rightarrow> s) \<and>
         priority t = (case c_priority b of None \<Rightarrow> MEDIUM | Some p \<Rightarrow> p) \<and>
         t_id t = nid"
  using assms
  by (auto simp: Task_create_def Let_def split: if_splits option.splits)

lemma createTask_Inr:
  assumes "createTask rt nid d req_user b = (Inr r, d')"
  shows "tasks d' = tasks d @ [doc r] \<and>
         tags (doc r) = normalizeTags (case c_tags b of None \<Rightarrow> [] | Some ts \<Rightarrow> ts) \<and>
         tagsNormalized (tags (doc r)) \<and>
         status (doc r) = (case c_status b of None \<Rightarrow> TODO | Some s \<Rightarrow> s) \<and>
         priority (doc r) = (case c_priority b of None \<Rightarrow> MEDIUM | Some p \<Rightarrow> p)"
proof -
  from assms obtain u where u: "req_user = Some u"
    by (cases req_user) (simp_all add: createTask_def)
  from assms u obtain a where a: "User_findById d (c_assignee b) = Some a"
    by (cases "User_findById d (c_assignee b)") (simp_all add: createTask_def)
  obtain x d1 where x: "Task_create rt nid b (u_id u) d = (x, d1)"
    by (cases "Task_create rt nid b (u_id u) d")
  from assms u a x obtain t where t: "x = Inr t"
    by (cases x) (simp_all add: createTask_def)
  have r: "doc r = t" and d': "tasks d' = tasks d1"
    using assms u a x t by (auto simp: createTask_def Let_def ActivityLog_create_def)
  note c = Task_create_Inr[OF x[unfolded t]]
  have "tagsNormalized (tags t)" using c by (simp add: normalizeTags_normalized)
  then show ?thesis using c by (simp add: r d')
qed

text \<open>
  Claim C4. After a create the stored tags are normalized (\<open>createTask_Inr\<close>: the
  \<open>pre("save")\<close> hook runs). After an update they are not: \<open>findByIdAndUpdate\<close> and
  \<open>updateMany\<close> write the tags of the body as they are. The assignee of a task sends
  the tags \<open>["Urgent", " urgent ", "Urgent"]\<close>, which pass the validation of the
  route (at most 10, none empty after trimming); the update succeeds and the stored
  task holds that list, which is neither lower-cased, nor trimmed, nor free of
  duplicates. The bulk route stores the same list the same way.
\<close>

theorem update_stores_tags_as_sent:
  "(case updateTask rt0 db0 (Some bob) (t_id task1)
         (emptyUpdate\<lparr>up_tags := Some [''Urgent'', '' urgent '', ''Urgent'']\<rparr>) of
      (Inr r, d') \<Rightarrow> map_option tags (Task_findById d' (t_id task1)) =
                        Some [''Urgent'', '' urgent '', ''Urgent'']
    | (Inl e, d') \<Rightarrow> False) \<and>
   (case bulkUpdateRoute rt0 db0 (Some alice)
         \<lparr>taskIds = [t_id task1],
          updates = emptyBulk\<lparr>b_tags := Some [''Urgent'', '' urgent '', ''Urgent'']\<rparr>\<rparr> of
      (Inr r, d') \<Rightarrow> map_option tags (Task_findById d' (t_id task1)) =
                        Some [''Urgent'', '' urgent '', ''Urgent'']
    | (Inl e, d') \<Rightarrow> False) \<and>
   \<not> tagsNormalized [''Urgent'', '' urgent '', ''Urgent''] \<and>
   normalizeTags [''Urgent'', '' urgent '', ''Urgent''] = [''urgent'']"
  by code_simp

lemma filter_length_eq: "length (filter P xs) = length xs \<Longrightarrow> filter P xs = xs"
proof (induction xs)
  case Nil
  then show ?case by simp
next
  case (Cons x xs)
  have le: "length (filter P xs) \<le> length xs" by (rule length_filter_le)
  show ?case
  proof (cases "P x")
    case True
    then show ?thesis using Cons by simp
  next
    case False
    then show ?thesis using Cons.prems le by simp
  qed
qed

lemma logBulk_logs:
  "logs (logBulk rt uid upd ids d) = logs d @ map (bulkEntry rt uid upd) ids \<and>
   tasks (logBulk rt uid upd ids d) = tasks d \<and> users (logBulk rt uid upd ids d) = users d"
  by (induction ids arbitrary: d) (simp_all add: ActivityLog_create_def bulkEntry_def)

lemma Task_updateMany_Inr:
  assumes "Task_updateMany rt ids upd d = (Inr res, d1)"
  shows "matchedCount res = length (filter (\<lambda>t. t_id t \<in> set ids) (tasks d)) \<and>
         tasks d1 = map (\<lambda>t. if t_id t \<in> set ids then applyBulk rt upd t else t) (tasks d) \<and>
         logs d1 = logs d \<and> users d1 = users d"
  using assms by (auto simp: Task_updateMany_def Let_def split: if_splits)

lemma Task_updateMany_Inl:
  "Task_updateMany rt ids upd d = (Inl e, d1) \<Longrightarrow> d1 = d"
  by (auto simp: Task_updateMany_def Let_def split: if_splits)

lemma bulkUpdateTasks_Inl:
  assumes "bulkUpdateTasks rt d req_user body = (Inl e, d')"
  shows "d' = d"
proof (cases req_user)
  case None
  then show ?thesis using assms by (simp add: bulkUpdateTasks_def)
next
  case (Some u)
  obtain x d1 where x: "Task_updateMany rt (filter (ObjectId_isValid rt) (taskIds body)) (updates body) d = (x, d1)"
    by (cases "Task_updateMany rt (filter (ObjectId_isValid rt) (taskIds body)) (updates body) d")
  show ?thesis
  proof (cases x)
    case (Inl e')
    then show ?thesis using assms Some x Task_updateMany_Inl[of rt _ _ d e' d1]
      by (auto simp: bulkUpdateTasks_def Let_def split: if_splits)
  next
    case (Inr res)
    then show ?thesis using assms Some x
      by (auto simp: bulkUpdateTasks_def Let_def split: if_splits)
  qed
qed

lemma bulkUpdateTasks_Inr:
  assumes "bulkUpdateTasks rt d (Some u) body = (Inr res, d')"
  shows "logs d' = logs d @ map (bulkEntry rt (u_id u) (updates body)) (taskIds body) \<and>
         matchedCount res = length (filter (\<lambda>t. t_id t \<in> set (taskIds body)) (tasks d)) \<and>
         tasks d' = map (\<lambda>t. if t_id t \<in> set (taskIds body)
                               then applyBulk rt (updates body) t else t) (tasks d) \<and>
         users d' = users d"
proof -
  let ?valid = "filter (ObjectId_isValid rt) (taskIds body)"
  have len: "length ?valid = length (taskIds body)"
    using assms by (auto simp: bulkUpdateTasks_def Let_def split: if_splits)
  then have v: "?valid = taskIds body" by (rule filter_length_eq)
  obtain x d1 where x: "Task_updateMany rt (taskIds body) (updates body) d = (x, d1)"
    by (cases "Task_updateMany rt (taskIds body) (updates body) d")
  have xr: "x = Inr res" and d': "d' = logBulk rt (u_id u) (updates body) (taskIds body) d1"
    using assms x v by (auto simp: bulkUpdateTasks_def Let_def split: if_splits sum.splits)
  note m = Task_updateMany_Inr[OF x[unfolded xr]]
  show ?thesis using m by (simp add: d' logBulk_logs)
qed

text \<open>
  Claim C5, as the code has it. A successful bulk update appends one activity-log entry
  with changes \<open>{bulk: true, updates}\<close> for every id of the request, in the order of
  the request, whether or not the id matches a stored task: the number of entries
  written is the number of requested ids, while \<open>matchedCount\<close> is the number of
  stored tasks whose id is among them.
\<close>

theorem bulk_logs_per_requested_id:
  assumes "bulkUpdateTasks rt d (Some u) body = (Inr res, d')"
  shows "logs d' = logs d @ map (bulkEntry rt (u_id u) (updates body)) (taskIds body) \<and>
         length (logs d') = length (logs d) + length (taskIds body) \<and>
         matchedCount res = length (filter (\<lambda>t. t_id t \<in> set (taskIds body)) (tasks d))"
  using bulkUpdateTasks_Inr[OF assms] by simp

text \<open>
  Claim C5 as stated fails: an admin's batch naming one well-formed id that matches no
  stored task succeeds with \<open>matchedCount = 0\<close> and writes one log entry for that id.
\<close>

theorem bulk_logs_unmatched_id:
  "bulkUpdateTasks rt0 db0 (Some alice)
       \<lparr>taskIds = [''333333333333333333333333''],
        updates = emptyBulk\<lparr>b_status := Some DONE\<rparr>\<rparr> =
     (Inr \<lparr>matchedCount = 0, modifiedCount = 0\<rparr>,
      db0\<lparr>logs := [bulkEntry rt0 (u_id alice) (emptyBulk\<lparr>b_status := Some DONE\<rparr>)
                      ''333333333333333333333333'']\<rparr>) \<and>
   Task_findById db0 ''333333333333333333333333'' = None \<and>
   logs db0 = []"
  by code_simp

theorem bulk_logs_per_requested_id_witness:
  "\<exists>res d'. bulkUpdateTasks rt0 db0 (Some alice)
       \<lparr>taskIds = [t_id task1, ''333333333333333333333333''],
        updates = emptyBulk\<lparr>b_status := Some DONE\<rparr>\<rparr> = (Inr res, d') \<and>
     length (logs d') = length (logs db0) + 2 \<and> matchedCount res = 1"
proof -
  let ?body = "\<lparr>taskIds = [t_id task1, ''333333333333333333333333''],
        updates = emptyBulk\<lparr>b_status := Some DONE\<rparr>\<rparr>"
  have "fst (bulkUpdateTasks rt0 db0 (Some alice) ?body) =
      Inr \<lparr>matchedCount = 1, modifiedCount = 1\<rparr>"
    by code_simp
  then obtain res d' where ok: "bulkUpdateTasks rt0 db0 (Some alice) ?body = (Inr res, d')"
    by (metis prod.collapse)
  have n: "length (filter (\<lambda>t. t_id t \<in> set (taskIds ?body)) (tasks db0)) = 1"
    by code_simp
  from bulk_logs_per_requested_id[OF ok] n
  have "length (logs d') = length (logs db0) + 2 \<and> matchedCount res = 1"
    by simp
  then show ?thesis using ok by blast
qed

text \<open>
  Claim C6. A bulk update in which some requested id is not a 24-digit hexadecimal
  identifier fails at the route (validation precedes the handler), and one in which
  some id is refused by \<open>ObjectId.isValid\<close> fails in the handler; a bulk update whose
  update names an assignee that does not exist fails in the handler and at the route.
  In each case the store is returned as it was: no task is modified and no log entry is
  written.
\<close>

theorem bulk_fails_before_write:
  "(list_ex (\<lambda>i. \<not> isMongoId i) (taskIds body) \<longrightarrow>
      (\<exists>e. bulkUpdateRoute rt d req_user body = (Inl e, d))) \<and>
   (list_ex (\<lambda>i. \<not> ObjectId_isValid rt i) (taskIds body) \<longrightarrow>
      (\<exists>e. bulkUpdateTasks rt d req_user body = (Inl e, d))) \<and>
   (\<forall>a. b_assignee (updates body) = Some a \<and> User_findById d a = None \<longrightarrow>
      (a \<noteq> [] \<longrightarrow> (\<exists>e. bulkUpdateTasks rt d req_user body = (Inl e, d))) \<and>
      (\<exists>e. bulkUpdateRoute rt d req_user body = (Inl e, d)))"
proof -
  have route: "\<exists>e. bulkUpdateRoute rt d req_user body = (Inl e, d)"
    if "\<exists>e. bulkUpdateTasks rt d req_user body = (Inl e, d)"
    using that by (auto simp: bulkUpdateRoute_def split: option.splits)
  have invalid: "\<exists>e. bulkUpdateRoute rt d req_user body = (Inl e, d)"
    if "bulkUpdateValidation body \<noteq> []"
    using that
    by (auto simp: bulkUpdateRoute_def handleValidationErrors_def split: option.splits)
  have 1: "\<exists>e. bulkUpdateRoute rt d req_user body = (Inl e, d)"
    if "list_ex (\<lambda>i. \<not> isMongoId i) (taskIds body)"
  proof -
    have "bulkUpdateValidation body \<noteq> []"
      using that by (simp add: bulkUpdateValidation_def Let_def)
    then show ?thesis by (rule invalid)
  qed
  have 2: "\<exists>e. bulkUpdateTasks rt d req_user body = (Inl e, d)"
    if "list_ex (\<lambda>i. \<not> ObjectId_isValid rt i) (taskIds body)"
  proof -
    have "filter (ObjectId_isValid rt) (taskIds body) \<noteq> taskIds body"
      using that by (auto simp: list_ex_iff filter_id_conv)
    then have "length (filter (ObjectId_isValid rt) (taskIds body)) \<noteq> length (taskIds body)"
      using filter_length_eq by blast
    then show ?thesis
      by (auto simp: bulkUpdateTasks_def Let_def split: option.splits)
  qed
  have 3: "\<exists>e. bulkUpdateTasks rt d req_user body = (Inl e, d)"
    if "b_assignee (updates body) = Some a" "User_findById d a = None" "a \<noteq> []" for a
    using that by (auto simp: bulkUpdateTasks_def Let_def split: option.splits)
  have 4: "\<exists>e. bulkUpdateRoute rt d req_user body = (Inl e, d)"
    if "b_assignee (updates body) = Some a" "User_findById d a = None" for a
  proof (cases "a = []")
    case True
    then have "bulkUpdateValidation body \<noteq> []"
      using that(1) by (simp add: bulkUpdateValidation_def Let_def isMongoId_def)
    then show ?thesis by (rule invalid)
  next
    case False
    then show ?thesis using 3[OF that] route by blast
  qed
  show ?thesis using 1 2 3 4 by blast
qed

theorem bulk_fails_before_write_witness:
  "list_ex (\<lambda>i. \<not> isMongoId i) [t_id task1, t_id task2, ''333333333333333333333333'', ''xyz''] \<and>
   (\<exists>e. bulkUpdateRoute rt0 db0 (Some alice)
          \<lparr>taskIds = [t_id task1, t_id task2, ''333333333333333333333333'', ''xyz''],
           updates = emptyBulk\<lparr>b_status := Some DONE\<rparr>\<rparr> = (Inl e, db0)) \<and>
   list_ex (\<lambda>i. \<not> ObjectId_isValid rt0 i) [t_id task1, ''xyz''] \<and>
   (\<exists>e. bulkUpdateTasks rt0 db0 (Some alice)
          \<lparr>taskIds = [t_id task1, ''xyz''],
           updates = emptyBulk\<lparr>b_status := Some DONE\<rparr>\<rparr> = (Inl e, db0)) \<and>
   User_findById db0 ''ffffffffffffffffffffffff'' = None \<and>
   (\<exists>e. bulkUpdateTasks rt0 db0 (Some alice)
          \<lparr>taskIds = [t_id task1],
           updates = emptyBulk\<lparr>b_assignee := Some ''ffffffffffffffffffffffff''\<rparr>\<rparr> = (Inl e, db0))"
proof -
  let ?b1 = "\<lparr>taskIds = [t_id task1, t_id task2, ''333333333333333333333333'', ''xyz''],
           updates = emptyBulk\<lparr>b_status := Some DONE\<rparr>\<rparr>"
  let ?b2 = "\<lparr>taskIds = [t_id task1, ''xyz''],
           updates = emptyBulk\<lparr>b_status := Some DONE\<rparr>\<rparr>"
  let ?b3 = "\<lparr>taskIds = [t_id task1],
           updates = emptyBulk\<lparr>b_assignee := Some ''ffffffffffffffffffffffff''\<rparr>\<rparr>"
  have h1: "list_ex (\<lambda>i. \<not> isMongoId i) (taskIds ?b1)"
    by (simp add: isMongoId_def)
  have h2: "list_ex (\<lambda>i. \<not> ObjectId_isValid rt0 i) (taskIds ?b2)"
    by (simp add: rt0_def isMongoId_def)
  have h3: "b_assignee (updates ?b3) = Some ''ffffffffffffffffffffffff''"
    by simp
  have h4: "User_findById db0 ''ffffffffffffffffffffffff'' = None"
    by (simp add: User_findById_def User_findById_stored_def db0_def stored_def
        alice_def bob_def carol_def dave_def)
  have 1: "\<exists>e. bulkUpdateRoute rt0 db0 (Some alice) ?b1 = (Inl e, db0)"
    using bulk_fails_before_write[of ?b1 rt0 db0 "Some alice"] h1 by blast
  have 2: "\<exists>e. bulkUpdateTasks rt0 db0 (Some alice) ?b2 = (Inl e, db0)"
    using bulk_fails_before_write[of ?b2 rt0 db0 "Some alice"] h2 by blast
  have h5: "''ffffffffffffffffffffffff'' \<noteq> []" by simp
  have 3: "\<exists>e. bulkUpdateTasks rt0 db0 (Some alice) ?b3 = (Inl e, db0)"
    using bulk_fails_before_write[of ?b3 rt0 db0 "Some alice"] h3 h4 h5 by blast
  have h1': "list_ex (\<lambda>i. \<not> isMongoId i)
      [t_id task1, t_id task2, ''333333333333333333333333'', ''xyz'']"
    using h1 by simp
  have h2': "list_ex (\<lambda>i. \<not> ObjectId_isValid rt0 i) [t_id task1, ''xyz'']"
    using h2 by simp
  show ?thesis
    using 1 2 3 h1' h2' h4 by blast
qed

lemma overdueFilter_matches:
  "matchesFilter rt (overdueFilter rt u) t =
     (isOverdue rt t \<and> (role u = MEMBER \<longrightarrow> assignee t = u_id u))"
  by (auto simp: matchesFilter_def overdueFilter_def empty_filter_def isOverdue_def Let_def
      split: date_field.splits)

text \<open>
  Claim C7, as the code has it. A task is overdue exactly when its due date is a date
  before now and its status is not done; the value depends on the task and the clock
  only. The filter of \<open>getOverdueTasks\<close> matches a task exactly when the task is overdue
  and, for a caller with role member, assigned to the caller: among the tasks the
  caller may see (all for an admin, the caller's own for a member) the endpoint returns
  exactly the tasks whose virtual \<open>isOverdue\<close> holds.
\<close>

theorem overdue_virtual_and_query:
  "isOverdue rt t = (\<exists>x. dueDate t = Date x \<and> x < now rt \<and> status t \<noteq> DONE) \<and>
   matchesFilter rt (overdueFilter rt u) t =
     (isOverdue rt t \<and> (role u = MEMBER \<longrightarrow> assignee t = u_id u)) \<and>
   (\<exists>r. getOverdueTasks rt d (Some u) = Inr r \<and>
      doc ` set r = {t \<in> set (tasks d). isOverdue rt t \<and> (role u = MEMBER \<longrightarrow> assignee t = u_id u)} \<and>
      length r = length (filter (\<lambda>t. isOverdue rt t \<and> (role u = MEMBER \<longrightarrow> assignee t = u_id u))
                           (tasks d)))"
proof -
  have 1: "isOverdue rt t = (\<exists>x. dueDate t = Date x \<and> x < now rt \<and> status t \<noteq> DONE)"
    by (auto simp: isOverdue_def split: date_field.splits)
  let ?P = "\<lambda>t. isOverdue rt t \<and> (role u = MEMBER \<longrightarrow> assignee t = u_id u)"
  have "matchesFilter rt (overdueFilter rt u) = ?P"
    by (rule ext) (rule overdueFilter_matches)
  then have f: "Task_find rt (overdueFilter rt u) d = filter ?P (tasks d)"
    by (simp add: Task_find_def)
  have r: "getOverdueTasks rt d (Some u) =
      Inr (map (populate d) (sortTasks SortDueDate Asc (filter ?P (tasks d))))"
    by (simp add: getOverdueTasks_def f)
  have "doc ` set (map (populate d) (sortTasks SortDueDate Asc (filter ?P (tasks d)))) =
      {t \<in> set (tasks d). ?P t}"
    by (auto simp: image_image set_sortTasks)
  moreover have "length (map (populate d) (sortTasks SortDueDate Asc (filter ?P (tasks d)))) =
      length (filter ?P (tasks d))"
    by (simp add: length_sortTasks)
  ultimately show ?thesis using 1 overdueFilter_matches r by blast
qed

text \<open>
  Claim C7 as stated fails for a member: a stored task that is overdue but assigned to
  someone else satisfies the virtual predicate and is not selected by the endpoint.
\<close>

theorem overdue_not_selected_for_other_member:
  "isOverdue rt0 task1 \<and> task1 \<in> set (tasks db0) \<and>
   getOverdueTasks rt0 db0 (Some carol) = Inr []"
  by code_simp

theorem overdue_virtual_and_query_witness:
  "role carol = MEMBER \<and>
   (\<exists>r. getOverdueTasks rt0 db0 (Some carol) = Inr r \<and>
      doc ` set r = {t \<in> set (tasks db0). isOverdue rt0 t \<and> assignee t = u_id carol}) \<and>
   role alice = ADMIN \<and>
   (\<exists>r. getOverdueTasks rt0 db0 (Some alice) = Inr r \<and>
      doc ` set r = {t \<in> set (tasks db0). isOverdue rt0 t})"
proof -
  have c: "role carol = MEMBER" by (simp add: carol_def)
  have a: "role alice = ADMIN" by (simp add: alice_def)
  from overdue_virtual_and_query[of rt0 task1 carol db0] obtain r where
    "getOverdueTasks rt0 db0 (Some carol) = Inr r"
    "doc ` set r = {t \<in> set (tasks db0). isOverdue rt0 t \<and>
        (role carol = MEMBER \<longrightarrow> assignee t = u_id carol)}"
    by blast
  then have 1: "\<exists>r. getOverdueTasks rt0 db0 (Some carol) = Inr r \<and>
      doc ` set r = {t \<in> set (tasks db0). isOverdue rt0 t \<and> assignee t = u_id carol}"
    using c by auto
  from overdue_virtual_and_query[of rt0 task1 alice db0] obtain r' where
    "getOverdueTasks rt0 db0 (Some alice) = Inr r'"
    "doc ` set r' = {t \<in> set (tasks db0). isOverdue rt0 t \<and>
        (role alice = MEMBER \<longrightarrow> assignee t = u_id alice)}"
    by blast
  then have 2: "\<exists>r. getOverdueTasks rt0 db0 (Some alice) = Inr r \<and>
      doc ` set r = {t \<in> set (tasks db0). isOverdue rt0 t}"
    using a by auto
  show ?thesis using c a 1 2 by blast
qed

lemma deleteFirst_find:
  "distinct (map f xs) \<Longrightarrow> find (\<lambda>x. f x = i) (deleteFirst (\<lambda>x. f x = i) xs) = None"
  by (induction xs) (auto simp: find_None_iff image_iff)

lemma deleteFirst_other:
  "j \<noteq> i \<Longrightarrow> find (\<lambda>x. f x = j) (deleteFirst (\<lambda>x. f x = i) xs) = find (\<lambda>x. f x = j) xs"
  by (induction xs) auto

text \<open>
  Claim C9. For a stored user with at least one assigned task, \<open>deleteUser\<close> fails with
  a 400 error and leaves the store as it was, the user record included. For a stored
  user with no assigned task who is not the caller (the id being a valid object id and
  the ids of the collection distinct), the delete succeeds and removes the user; tasks
  and log stay as they were.
\<close>

theorem deleteUser_blocked_by_tasks:
  assumes "User_findById_stored d i = Some x"
  shows
   "((\<exists>t \<in> set (tasks d). assignee t = i) \<longrightarrow>
       failsWith 400 (fst (deleteUser rt d req_user i)) \<and>
       snd (deleteUser rt d req_user i) = d \<and>
       User_findById_stored (snd (deleteUser rt d req_user i)) i = Some x) \<and>
    ((\<forall>t \<in> set (tasks d). assignee t \<noteq> i) \<and> map_option u_id req_user \<noteq> Some i \<and>
     ObjectId_isValid rt i \<and> distinct (map u_id (users d)) \<longrightarrow>
       fst (deleteUser rt d req_user i) = Inr () \<and>
       users (snd (deleteUser rt d req_user i)) = deleteFirst (\<lambda>y. u_id y = i) (users d) \<and>
       User_findById_stored (snd (deleteUser rt d req_user i)) i = None \<and>
       tasks (snd (deleteUser rt d req_user i)) = tasks d \<and>
       logs (snd (deleteUser rt d req_user i)) = logs d)"
proof -
  have found: "User_findById d i = Some (select_default x)"
    using assms by (simp add: User_findById_def)
  have "matchesFilter rt (empty_filter\<lparr>f_assignee := Some i\<rparr>) = (\<lambda>t. assignee t = i)"
    by (rule ext) (simp add: matchesFilter_def empty_filter_def)
  then have cnt: "Task_countDocuments rt (empty_filter\<lparr>f_assignee := Some i\<rparr>) d =
      int (length (filter (\<lambda>t. assignee t = i) (tasks d)))"
    by (simp add: Task_countDocuments_def)
  have pos: "0 < length (filter (\<lambda>t. assignee t = i) (tasks d)) \<longleftrightarrow>
      (\<exists>t \<in> set (tasks d). assignee t = i)"
    by (simp add: filter_empty_conv)
  have blocked: "failsWith 400 (fst (deleteUser rt d req_user i)) \<and>
       snd (deleteUser rt d req_user i) = d"
    if "\<exists>t \<in> set (tasks d). assignee t = i"
    using that found cnt pos by (simp add: deleteUser_def Let_def)
  have ok: "fst (deleteUser rt d req_user i) = Inr () \<and>
       snd (deleteUser rt d req_user i) = d\<lparr>users := deleteFirst (\<lambda>y. u_id y = i) (users d)\<rparr>"
    if "\<forall>t \<in> set (tasks d). assignee t \<noteq> i" "map_option u_id req_user \<noteq> Some i"
      "ObjectId_isValid rt i"
  proof -
    have "length (filter (\<lambda>t. assignee t = i) (tasks d)) = 0"
      using that(1) by (simp add: filter_empty_conv)
    then show ?thesis using that(2,3) found cnt by (simp add: deleteUser_def Let_def)
  qed
  show ?thesis
    using blocked ok assms deleteFirst_find[of u_id "users d" i]
    by (auto simp: User_findById_stored_def)
qed

theorem deleteUser_blocked_by_tasks_witness:
  "User_findById_stored db0 (u_id bob) = Some (stored bob ''bob-secret'') \<and>
   (\<exists>t \<in> set (tasks db0). assignee t = u_id bob) \<and>
   failsWith 400 (fst (deleteUser rt0 db0 (Some alice) (u_id bob))) \<and>
   snd (deleteUser rt0 db0 (Some alice) (u_id bob)) = db0 \<and>
   User_findById_stored db0 (u_id dave) = Some (stored dave ''dave-secret'') \<and>
   fst (deleteUser rt0 db0 (Some alice) (u_id dave)) = Inr () \<and>
   User_findById_stored (snd (deleteUser rt0 db0 (Some alice) (u_id dave))) (u_id dave) = None"
proof -
  have b: "User_findById_stored db0 (u_id bob) = Some (stored bob ''bob-secret'')"
    by code_simp
  have bt: "\<exists>t \<in> set (tasks db0). assignee t = u_id bob"
    by (simp add: db0_def task1_def)
  have dv: "User_findById_stored db0 (u_id dave) = Some (stored dave ''dave-secret'')"
    by code_simp
  have dt: "\<forall>t \<in> set (tasks db0). assignee t \<noteq> u_id dave"
    by (simp add: db0_def task1_def task2_def bob_def carol_def dave_def)
  have caller: "map_option u_id (Some alice) \<noteq> Some (u_id dave)"
    by (simp add: alice_def dave_def)
  have valid: "ObjectId_isValid rt0 (u_id dave)"
    by code_simp
  have dist: "distinct (map u_id (users db0))"
    by code_simp
  have 1: "failsWith 400 (fst (deleteUser rt0 db0 (Some alice) (u_id bob))) \<and>
       snd (deleteUser rt0 db0 (Some alice) (u_id bob)) = db0"
    using deleteUser_blocked_by_tasks[OF b, of rt0 "Some alice"] bt by blast
  have 2: "fst (deleteUser rt0 db0 (Some alice) (u_id dave)) = Inr () \<and>
       User_findById_stored (snd (deleteUser rt0 db0 (Some alice) (u_id dave))) (u_id dave) = None"
    using deleteUser_blocked_by_tasks[OF dv, of rt0 "Some alice"] dt caller valid dist by blast
  show ?thesis using b bt dv 1 2 by blast
qed

lemma user_toObject_flat: "kv \<in> set (user_toObject rt u) \<Longrightarrow> \<not> has_key k (snd kv)"
  by (auto simp: user_toObject_def split: option.splits)

lemma user_toObject_password:
  "(''password'' \<in> fst ` set (user_toObject rt u)) = (password u \<noteq> None)"
  by (cases "password u") (auto simp: user_toObject_def)

lemma user_toJSON_no_password [simp]: "\<not> has_key ''password'' (user_toJSON rt u)"
  using user_toObject_flat[of _ rt u "''password''"]
  by (auto simp: user_toJSON_def list_ex_iff)

lemma user_ref_toJSON_no_password [simp]: "\<not> has_key ''password'' (user_ref_toJSON r)"
  by (simp add: user_ref_toJSON_def split: option.splits)

lemma task_toJSON_no_password [simp]: "\<not> has_key ''password'' (task_toJSON rt pt)"
  by (cases "description (doc pt)"; cases "dueDate (doc pt)")
    (simp_all add: task_toJSON_def Let_def list_ex_iff)

lemma pagination_toJSON_no_password [simp]: "\<not> has_key ''password'' (pagination_toJSON p)"
  by (simp add: pagination_toJSON_def)

lemma apiResponse_has_key:
  "has_key ''password'' (res_body (apiResponse c m extra)) =
     list_ex (\<lambda>kv. fst kv = ''password'' \<or> has_key ''password'' (snd kv)) extra"
  by (simp add: apiResponse_def)

lemma sendTokenResponse_no_password [simp]:
  "\<not> has_key ''password'' (res_body (sendTokenResponse rt u c m))"
  by (simp add: sendTokenResponse_def apiResponse_has_key)

lemma getTasks_response_no_password [simp]:
  "\<not> has_key ''password'' (res_body (getTasks_response rt r))"
  by (simp add: getTasks_response_def apiResponse_has_key list_ex_iff)

lemma User_findById_no_password: "User_findById d i = Some u \<Longrightarrow> password u = None"
  by (auto simp: User_findById_def select_default_def)

lemma User_findOne_email_no_password: "User_findOne_email d e = Some u \<Longrightarrow> password u = None"
  by (auto simp: User_findOne_email_def select_default_def)

lemma login_user_no_password: "login_user rt d b = Inr u \<Longrightarrow> password u = None"
  by (auto simp: login_user_def split: option.splits if_splits)

lemma authenticate_no_password: "authenticate rt d tok = Inr u \<Longrightarrow> password u = None"
  by (auto simp: authenticate_def split: option.splits if_splits jwt_result.splits)

lemma register_no_password:
  "register rt nid d b = (Inr resp, d') \<Longrightarrow> \<not> has_key ''password'' (res_body resp)"
  by (auto simp: register_def split: option.splits prod.splits sum.splits)

lemma login_no_password: "login rt d b = Inr resp \<Longrightarrow> \<not> has_key ''password'' (res_body resp)"
  by (auto simp: login_def split: sum.splits)

lemma getProfile_no_password:
  "getProfile rt ru = Inr resp \<Longrightarrow> \<not> has_key ''password'' (res_body resp)"
  by (auto simp: getProfile_def apiResponse_has_key split: option.splits)

lemma profileRoute_no_password:
  "profileRoute rt d tok = Inr resp \<Longrightarrow> \<not> has_key ''password'' (res_body resp)"
  by (auto simp: profileRoute_def getProfile_no_password split: sum.splits)

lemma getUsers_no_password:
  "getUsers rt d q = Inr resp \<Longrightarrow> \<not> has_key ''password'' (res_body resp)"
  by (auto simp: getUsers_def Let_def apiResponse_has_key list_ex_iff)

lemma getUserById_no_password:
  "getUserById rt d i = Inr resp \<Longrightarrow> \<not> has_key ''password'' (res_body resp)"
  by (auto simp: getUserById_def apiResponse_has_key split: if_splits option.splits)

lemma User_create_holds_hash:
  "User_create rt nid b r d = (Inr u, d') \<Longrightarrow> password u = Some (bcrypt_hash rt (rb_password b))"
  by (auto simp: User_create_def Let_def split: if_splits)

text \<open>
  Claim C10. No response that carries a user object has a \<open>password\<close> key, at any
  depth: register, login, profile (with and without the \<open>authenticate\<close> step), user
  list, user by id, and the task list with its populated assignee and creator. The
  three mechanisms: the \<open>toJSON\<close> transform deletes the key (the plain object of a
  document has it exactly when the document holds the hash, as the one \<open>User.create\<close>
  returns does); a query result does not hold the hash by default; \<open>login\<close> clears it
  before responding.
\<close>

theorem responses_omit_password:
  "(\<forall>u. \<not> has_key ''password'' (user_toJSON rt u)) \<and>
   (\<forall>u. (''password'' \<in> fst ` set (user_toObject rt u)) = (password u \<noteq> None)) \<and>
   (\<forall>i u. User_findById d i = Some u \<longrightarrow> password u = None) \<and>
   (\<forall>e u. User_findOne_email d e = Some u \<longrightarrow> password u = None) \<and>
   (\<forall>b u. login_user rt d b = Inr u \<longrightarrow> password u = None) \<and>
   (\<forall>tok u. authenticate rt d tok = Inr u \<longrightarrow> password u = None) \<and>
   (\<forall>nid b resp d'. register rt nid d b = (Inr resp, d') \<longrightarrow>
      \<not> has_key ''password'' (res_body resp)) \<and>
   (\<forall>b resp. login rt d b = Inr resp \<longrightarrow> \<not> has_key ''password'' (res_body resp)) \<and>
   (\<forall>tok resp. profileRoute rt d tok = Inr resp \<longrightarrow> \<not> has_key ''password'' (res_body resp)) \<and>
   (\<forall>ru resp. getProfile rt ru = Inr resp \<longrightarrow> \<not> has_key ''password'' (res_body resp)) \<and>
   (\<forall>q resp. getUsers rt d q = Inr resp \<longrightarrow> \<not> has_key ''password'' (res_body resp)) \<and>
   (\<forall>i resp. getUserById rt d i = Inr resp \<longrightarrow> \<not> has_key ''password'' (res_body resp)) \<and>
   (\<forall>ru q r. getTasks rt d ru q = Inr r \<longrightarrow>
      \<not> has_key ''password'' (res_body (getTasks_response rt r)))"
proof (intro conjI allI impI)
  fix u show "\<not> has_key ''password'' (user_toJSON rt u)" by simp
next
  fix u show "(''password'' \<in> fst ` set (user_toObject rt u)) = (password u \<noteq> None)"
    by (rule user_toObject_password)
next
  fix i u assume "User_findById d i = Some u"
  then show "password u = None" by (rule User_findById_no_password)
next
  fix e u assume "User_findOne_email d e = Some u"
  then show "password u = None" by (rule User_findOne_email_no_password)
next
  fix b u assume "login_user rt d b = Inr u"
  then show "password u = None" by (rule login_user_no_password)
next
  fix tok u assume "authenticate rt d tok = Inr u"
  then show "password u = None" by (rule authenticate_no_password)
next
  fix nid b resp d' assume "register rt nid d b = (Inr resp, d')"
  then show "\<not> has_key ''password'' (res_body resp)" by (rule register_no_password)
next
  fix b resp assume "login rt d b = Inr resp"
  then show "\<not> has_key ''password'' (res_body resp)" by (rule login_no_password)
next
  fix tok resp assume "profileRoute rt d tok = Inr resp"
  then show "\<not> has_key ''password'' (res_body resp)" by (rule profileRoute_no_password)
next
  fix ru resp assume "getProfile rt ru = Inr resp"
  then show "\<not> has_key ''password'' (res_body resp)" by (rule getProfile_no_password)
next
  fix q resp assume "getUsers rt d q = Inr resp"
  then show "\<not> has_key ''password'' (res_body resp)" by (rule getUsers_no_password)
next
  fix i resp assume "getUserById rt d i = Inr resp"
  then show "\<not> has_key ''password'' (res_body resp)" by (rule getUserById_no_password)
next
  fix ru q r
  show "\<not> has_key ''password'' (res_body (getTasks_response rt r))" by simp
qed

theorem responses_omit_password_witness:
  "(\<exists>u. User_findById db0 (u_id bob) = Some u \<and> password u = None) \<and>
   password (stored bob ''bob-secret'') \<noteq> None \<and>
   (\<exists>resp. login rt0 db0 \<lparr>lb_email = ''bob@example.com'', lb_password = ''bob-secret''\<rparr> = Inr resp \<and>
      \<not> has_key ''password'' (res_body resp)) \<and>
   (\<exists>resp d'. register rt0 ''eeeeeeeeeeeeeeeeeeeeeeee'' db0
        \<lparr>rb_email = ''Erin@Example.com'', rb_password = ''erin-secret'',
         rb_firstName = ''Erin'', rb_lastName = ''Evans'', rb_role = None\<rparr> = (Inr resp, d') \<and>
      \<not> has_key ''password'' (res_body resp)) \<and>
   (\<exists>resp. profileRoute rt0 db0 (Some ''token.bbbbbbbbbbbbbbbbbbbbbbbb'') = Inr resp \<and>
      \<not> has_key ''password'' (res_body resp)) \<and>
   (\<exists>resp. getUsers rt0 db0 \<lparr>uq_search = None, uq_role = None, uq_page = None,
        uq_limit = None, uq_sortBy = None, uq_sortOrder = None\<rparr> = Inr resp \<and>
      \<not> has_key ''password'' (res_body resp)) \<and>
   (\<exists>resp. getUserById rt0 db0 (u_id bob) = Inr resp \<and>
      \<not> has_key ''password'' (res_body resp)) \<and>
   (\<exists>r. getTasks rt0 db0 (Some alice) emptyQuery = Inr r \<and>
      \<not> has_key ''password'' (res_body (getTasks_response rt0 r))) \<and>
   (\<exists>u. User_findOne_email db0 ''bob@example.com'' = Some u \<and> password u = None) \<and>
   (\<exists>u. login_user rt0 db0 \<lparr>lb_email = ''bob@example.com'', lb_password = ''bob-secret''\<rparr> = Inr u \<and>
      password u = None) \<and>
   (\<exists>u. authenticate rt0 db0 (Some ''token.bbbbbbbbbbbbbbbbbbbbbbbb'') = Inr u \<and>
      password u = None) \<and>
   (\<exists>resp. getProfile rt0 (Some (stored bob ''bob-secret'')) = Inr resp \<and>
      \<not> has_key ''password'' (res_body resp))"
proof -
  note main = responses_omit_password[of rt0 db0]
  have m_one: "\<forall>e u. User_findOne_email db0 e = Some u \<longrightarrow> password u = None"
    using main by (elim conjE)
  have m_lu: "\<forall>b u. login_user rt0 db0 b = Inr u \<longrightarrow> password u = None"
    using main by (elim conjE)
  have m_auth: "\<forall>tok u. authenticate rt0 db0 tok = Inr u \<longrightarrow> password u = None"
    using main by (elim conjE)
  have m_gp: "\<forall>ru resp. getProfile rt0 ru = Inr resp \<longrightarrow>
      \<not> has_key ''password'' (res_body resp)"
    using main by (elim conjE)
  have m_find: "\<forall>i u. User_findById db0 i = Some u \<longrightarrow> password u = None"
    using main by (elim conjE)
  have m_register: "\<forall>nid b resp d'. register rt0 nid db0 b = (Inr resp, d') \<longrightarrow>
      \<not> has_key ''password'' (res_body resp)"
    using main by (elim conjE)
  have m_login: "\<forall>b resp. login rt0 db0 b = Inr resp \<longrightarrow>
      \<not> has_key ''password'' (res_body resp)"
    using main by (elim conjE)
  have m_profile: "\<forall>tok resp. profileRoute rt0 db0 tok = Inr resp \<longrightarrow>
      \<not> has_key ''password'' (res_body resp)"
    using main by (elim conjE)
  have m_users: "\<forall>q resp. getUsers rt0 db0 q = Inr resp \<longrightarrow>
      \<not> has_key ''password'' (res_body resp)"
    using main by (elim conjE)
  have m_user: "\<forall>i resp. getUserById rt0 db0 i = Inr resp \<longrightarrow>
      \<not> has_key ''password'' (res_body resp)"
    using main by (elim conjE)
  have m_tasks: "\<forall>ru q r. getTasks rt0 db0 ru q = Inr r \<longrightarrow>
      \<not> has_key ''password'' (res_body (getTasks_response rt0 r))"
    using main by (elim conjE)
  have ok: "\<exists>r. x = Inr r" if "\<not> isl x" for x :: "error + 'a"
    using that by (cases x) simp_all
  have "User_findById db0 (u_id bob) \<noteq> None"
    by code_simp
  then obtain u where u: "User_findById db0 (u_id bob) = Some u"
    by blast
  have 1: "\<exists>u. User_findById db0 (u_id bob) = Some u \<and> password u = None"
    using u m_find by blast
  have 2: "password (stored bob ''bob-secret'') \<noteq> None"
    by (simp add: stored_def)
  have "\<not> isl (login rt0 db0 \<lparr>lb_email = ''bob@example.com'', lb_password = ''bob-secret''\<rparr>)"
    by code_simp
  from ok[OF this] have 3: "\<exists>resp. login rt0 db0
        \<lparr>lb_email = ''bob@example.com'', lb_password = ''bob-secret''\<rparr> = Inr resp \<and>
      \<not> has_key ''password'' (res_body resp)"
    using m_login by blast
  let ?rb = "\<lparr>rb_email = ''Erin@Example.com'', rb_password = ''erin-secret'',
         rb_firstName = ''Erin'', rb_lastName = ''Evans'', rb_role = None\<rparr>"
  have "\<not> isl (fst (register rt0 ''eeeeeeeeeeeeeeeeeeeeeeee'' db0 ?rb))"
    by code_simp
  from ok[OF this] obtain resp where
    "fst (register rt0 ''eeeeeeeeeeeeeeeeeeeeeeee'' db0 ?rb) = Inr resp" ..
  then have "\<exists>d'. register rt0 ''eeeeeeeeeeeeeeeeeeeeeeee'' db0 ?rb = (Inr resp, d')"
    by (metis prod.collapse)
  then have 4: "\<exists>resp d'. register rt0 ''eeeeeeeeeeeeeeeeeeeeeeee'' db0 ?rb = (Inr resp, d') \<and>
      \<not> has_key ''password'' (res_body resp)"
    using m_register by blast
  have "\<not> isl (profileRoute rt0 db0 (Some ''token.bbbbbbbbbbbbbbbbbbbbbbbb''))"
    by code_simp
  from ok[OF this] have 5: "\<exists>resp. profileRoute rt0 db0 (Some ''token.bbbbbbbbbbbbbbbbbbbbbbbb'') = Inr resp \<and>
      \<not> has_key ''password'' (res_body resp)"
    using m_profile by blast
  let ?uq = "\<lparr>uq_search = None, uq_role = None, uq_page = None,
        uq_limit = None, uq_sortBy = None, uq_sortOrder = None\<rparr>"
  have "\<exists>resp. getUsers rt0 db0 ?uq = Inr resp"
    by (simp add: getUsers_def Let_def)
  then have 6: "\<exists>resp. getUsers rt0 db0 ?uq = Inr resp \<and> \<not> has_key ''password'' (res_body resp)"
    using m_users by blast
  have "\<not> isl (getUserById rt0 db0 (u_id bob))"
    by code_simp
  from ok[OF this] have 7: "\<exists>resp. getUserById rt0 db0 (u_id bob) = Inr resp \<and>
      \<not> has_key ''password'' (res_body resp)"
    using m_user by blast
  have "\<exists>r. getTasks rt0 db0 (Some alice) emptyQuery = Inr r"
    by (simp add: getTasks_Some)
  then have 8: "\<exists>r. getTasks rt0 db0 (Some alice) emptyQuery = Inr r \<and>
      \<not> has_key ''password'' (res_body (getTasks_response rt0 r))"
    using m_tasks by blast
  have "User_findOne_email db0 ''bob@example.com'' \<noteq> None"
    by code_simp
  then obtain u1 where "User_findOne_email db0 ''bob@example.com'' = Some u1"
    by blast
  then have 9: "\<exists>u. User_findOne_email db0 ''bob@example.com'' = Some u \<and> password u = None"
    using m_one by blast
  have "\<not> isl (login_user rt0 db0 \<lparr>lb_email = ''bob@example.com'', lb_password = ''bob-secret''\<rparr>)"
    by code_simp
  from ok[OF this] have 10: "\<exists>u. login_user rt0 db0
        \<lparr>lb_email = ''bob@example.com'', lb_password = ''bob-secret''\<rparr> = Inr u \<and>
      password u = None"
    using m_lu by blast
  have "\<not> isl (authenticate rt0 db0 (Some ''token.bbbbbbbbbbbbbbbbbbbbbbbb''))"
    by code_simp
  from ok[OF this] have 11: "\<exists>u. authenticate rt0 db0 (Some ''token.bbbbbbbbbbbbbbbbbbbbbbbb'') = Inr u \<and>
      password u = None"
    using m_auth by blast
  have "\<exists>resp. getProfile rt0 (Some (stored bob ''bob-secret'')) = Inr resp"
    by (simp add: getProfile_def)
  then have 12: "\<exists>resp. getProfile rt0 (Some (stored bob ''bob-secret'')) = Inr resp \<and>
      \<not> has_key ''password'' (res_body resp)"
    using m_gp by blast
  show ?thesis using 1 2 3 4 5 6 7 8 9 10 11 12 by blast
qed


end
